theory Spec2Isabelle
  imports Complex_Main
begin

section \<open>JavaScript numbers\<close>

text \<open>
  The renderer computes with JavaScript numbers. They are modelled as the real numbers
  extended with the three special values the code tests for and produces: \<open>Infinity\<close>,
  \<open>-Infinity\<close> and \<open>NaN\<close>. Finite arithmetic is exact (rounding and overflow of
  doubles are not modelled); arithmetic on the special values follows IEEE 754 as
  ECMAScript prescribes it. There is one zero, read as \<open>+0\<close>: a nonzero finite number
  divided by zero is the infinity with the sign of the numerator, and \<open>0 / 0\<close> is NaN.
\<close>

datatype jsnum = Fin real | PInf | NInf | NaN

text \<open>The result of \<open>Math.floor\<close>: an integral JavaScript number.\<close>

datatype jsint = IFin int | IPInf | INInf | INaN

fun num :: "jsint \<Rightarrow> jsnum" where
  "num (IFin i) = Fin (of_int i)"
| "num IPInf = PInf"
| "num INInf = NInf"
| "num INaN = NaN"

fun js_neg :: "jsnum \<Rightarrow> jsnum" where
  "js_neg (Fin a) = Fin (- a)"
| "js_neg PInf = NInf"
| "js_neg NInf = PInf"
| "js_neg NaN = NaN"

fun js_add :: "jsnum \<Rightarrow> jsnum \<Rightarrow> jsnum" where
  "js_add (Fin a) (Fin b) = Fin (a + b)"
| "js_add (Fin a) PInf = PInf"
| "js_add (Fin a) NInf = NInf"
| "js_add PInf (Fin b) = PInf"
| "js_add PInf PInf = PInf"
| "js_add PInf NInf = NaN"
| "js_add NInf (Fin b) = NInf"
| "js_add NInf PInf = NaN"
| "js_add NInf NInf = NInf"
| "js_add NaN b = NaN"
| "js_add a NaN = NaN"

definition js_sub :: "jsnum \<Rightarrow> jsnum \<Rightarrow> jsnum" where
  "js_sub a b = js_add a (js_neg b)"

fun js_mul :: "jsnum \<Rightarrow> jsnum \<Rightarrow> jsnum" where
  "js_mul (Fin a) (Fin b) = Fin (a * b)"
| "js_mul (Fin a) PInf = (if 0 < a then PInf else if a < 0 then NInf else NaN)"
| "js_mul (Fin a) NInf = (if 0 < a then NInf else if a < 0 then PInf else NaN)"
| "js_mul PInf (Fin b) = (if 0 < b then PInf else if b < 0 then NInf else NaN)"
| "js_mul NInf (Fin b) = (if 0 < b then NInf else if b < 0 then PInf else NaN)"
| "js_mul PInf PInf = PInf"
| "js_mul PInf NInf = NInf"
| "js_mul NInf PInf = NInf"
| "js_mul NInf NInf = PInf"
| "js_mul NaN b = NaN"
| "js_mul a NaN = NaN"

fun js_div :: "jsnum \<Rightarrow> jsnum \<Rightarrow> jsnum" where
  "js_div (Fin a) (Fin b) =
     (if b = 0 then (if 0 < a then PInf else if a < 0 then NInf else NaN)
      else Fin (a / b))"
| "js_div (Fin a) PInf = Fin 0"
| "js_div (Fin a) NInf = Fin 0"
| "js_div PInf (Fin b) = (if b < 0 then NInf else PInf)"
| "js_div NInf (Fin b) = (if b < 0 then PInf else NInf)"
| "js_div PInf PInf = NaN"
| "js_div PInf NInf = NaN"
| "js_div NInf PInf = NaN"
| "js_div NInf NInf = NaN"
| "js_div NaN b = NaN"
| "js_div a NaN = NaN"

text \<open>The remainder operator \<open>%\<close>: the quotient is truncated towards zero.\<close>

definition trunc :: "real \<Rightarrow> int" where
  "trunc q = (if 0 \<le> q then \<lfloor>q\<rfloor> else \<lceil>q\<rceil>)"

fun js_mod :: "jsnum \<Rightarrow> jsnum \<Rightarrow> jsnum" where
  "js_mod (Fin a) (Fin b) = (if b = 0 then NaN else Fin (a - b * of_int (trunc (a / b))))"
| "js_mod (Fin a) PInf = Fin a"
| "js_mod (Fin a) NInf = Fin a"
| "js_mod PInf b = NaN"
| "js_mod NInf b = NaN"
| "js_mod NaN b = NaN"
| "js_mod (Fin a) NaN = NaN"

text \<open>The comparisons \<open><\<close>, \<open>>\<close>, \<open><=\<close>, \<open>>=\<close>: false whenever an operand is NaN.\<close>

fun js_lt :: "jsnum \<Rightarrow> jsnum \<Rightarrow> bool" where
  "js_lt (Fin a) (Fin b) = (a < b)"
| "js_lt (Fin a) PInf = True"
| "js_lt (Fin a) NInf = False"
| "js_lt PInf b = False"
| "js_lt NInf (Fin b) = True"
| "js_lt NInf PInf = True"
| "js_lt NInf NInf = False"
| "js_lt NaN b = False"
| "js_lt a NaN = False"

definition js_gt :: "jsnum \<Rightarrow> jsnum \<Rightarrow> bool" where
  "js_gt a b = js_lt b a"

fun js_le :: "jsnum \<Rightarrow> jsnum \<Rightarrow> bool" where
  "js_le (Fin a) (Fin b) = (a \<le> b)"
| "js_le (Fin a) PInf = True"
| "js_le (Fin a) NInf = False"
| "js_le PInf (Fin b) = False"
| "js_le PInf PInf = True"
| "js_le PInf NInf = False"
| "js_le NInf (Fin b) = True"
| "js_le NInf PInf = True"
| "js_le NInf NInf = True"
| "js_le NaN b = False"
| "js_le a NaN = False"

definition js_ge :: "jsnum \<Rightarrow> jsnum \<Rightarrow> bool" where
  "js_ge a b = js_le b a"

fun Math_floor :: "jsnum \<Rightarrow> jsint" where
  "Math_floor (Fin a) = IFin \<lfloor>a\<rfloor>"
| "Math_floor PInf = IPInf"
| "Math_floor NInf = INInf"
| "Math_floor NaN = INaN"

fun Math_sqrt :: "jsnum \<Rightarrow> jsnum" where
  "Math_sqrt (Fin a) = (if a < 0 then NaN else Fin (sqrt a))"
| "Math_sqrt PInf = PInf"
| "Math_sqrt NInf = NaN"
| "Math_sqrt NaN = NaN"

text \<open>
  \<open>Math.pow\<close> with a finite exponent (the code raises to the literal \<open>2\<close> and to the
  configured falloff sharpness). An exponent of zero gives 1 for every base, NaN included;
  a negative base with a fractional exponent gives NaN.
\<close>

definition is_integer :: "real \<Rightarrow> bool" where
  "is_integer e = (of_int \<lfloor>e\<rfloor> = e)"

definition int_pow :: "real \<Rightarrow> int \<Rightarrow> real" where
  "int_pow b n = (if 0 \<le> n then b ^ nat n else 1 / b ^ nat (- n))"

fun Math_pow :: "jsnum \<Rightarrow> real \<Rightarrow> jsnum" where
  "Math_pow (Fin b) e =
     (if e = 0 then Fin 1
      else if 0 < b then Fin (b powr e)
      else if b = 0 then (if 0 < e then Fin 0 else PInf)
      else if is_integer e then Fin (int_pow b \<lfloor>e\<rfloor>)
      else NaN)"
| "Math_pow PInf e = (if e = 0 then Fin 1 else if 0 < e then PInf else Fin 0)"
| "Math_pow NInf e =
     (if e = 0 then Fin 1
      else if 0 < e then (if is_integer e \<and> odd \<lfloor>e\<rfloor> then NInf else PInf)
      else Fin 0)"
| "Math_pow NaN e = (if e = 0 then Fin 1 else NaN)"

text \<open>\<open>Math.max\<close> and \<open>Math.min\<close> of two numbers: NaN when either is NaN.\<close>

fun Math_max :: "jsnum \<Rightarrow> jsnum \<Rightarrow> jsnum" where
  "Math_max NaN b = NaN"
| "Math_max a NaN = NaN"
| "Math_max a b = (if js_lt a b then b else a)"

fun Math_min :: "jsnum \<Rightarrow> jsnum \<Rightarrow> jsnum" where
  "Math_min NaN b = NaN"
| "Math_min a NaN = NaN"
| "Math_min a b = (if js_lt b a then b else a)"

text \<open>
  \<open>Math.cos\<close> and \<open>Math.tan\<close>: the value at a number is the exact value of the function
  there. The tangent is the quotient of sine and cosine under the division above: where
  the cosine is \<open>0\<close> the model yields the infinity with the sign of the sine, and not the
  \<open>0\<close> that the total function \<^const>\<open>tan\<close> of the logic returns there. No double is an
  odd multiple of \<open>\<pi>/2\<close>, so the JavaScript function is never asked for that value.
\<close>

fun Math_cos :: "jsnum \<Rightarrow> jsnum" where
  "Math_cos (Fin a) = Fin (cos a)"
| "Math_cos PInf = NaN"
| "Math_cos NInf = NaN"
| "Math_cos NaN = NaN"

fun Math_tan :: "jsnum \<Rightarrow> jsnum" where
  "Math_tan (Fin a) = js_div (Fin (sin a)) (Fin (cos a))"
| "Math_tan PInf = NaN"
| "Math_tan NInf = NaN"
| "Math_tan NaN = NaN"

text \<open>
  \<open>Math.PI\<close> is the double nearest to \<open>\<pi>\<close>, the rational number
  \<open>884279719003555 / 2\<^sup>4\<^sup>8\<close>. It lies below \<open>\<pi>\<close> by about \<open>1.2 * 10\<^sup>-\<^sup>1\<^sup>6\<close>, so the sine of
  \<open>Math.PI\<close> is not \<open>0\<close>: among the angles \<open>0\<close>, \<open>Math.PI / 2\<close>, \<open>Math.PI\<close> and
  \<open>3 * Math.PI / 2\<close> that the program can hold, only at \<open>0\<close> is the tangent \<open>0\<close>, and at
  none of them is it infinite.
\<close>

definition mathPI :: real where
  "mathPI = 884279719003555 / 281474976710656"

definition Math_PI :: jsnum where
  "Math_PI = Fin mathPI"

definition MAX_SAFE_INTEGER :: jsnum where
  "MAX_SAFE_INTEGER = Fin 9007199254740991"

section \<open>config.js\<close>

definition canvasWidth :: int where
  "canvasWidth = 500"

definition canvasHeight :: int where
  "canvasHeight = 500"

definition tileSize :: real where
  "tileSize = 50"

definition degreesToRadians :: "real \<Rightarrow> real" where
  "degreesToRadians angleInDegrees = angleInDegrees * (mathPI / 180)"

definition FOV_DEGREES :: real where
  "FOV_DEGREES = 60"

definition FOV_RADIANS_HALF :: real where
  "FOV_RADIANS_HALF = degreesToRadians (FOV_DEGREES / 2)"

definition PLAYER_LIGHT_RADIUS :: real where
  "PLAYER_LIGHT_RADIUS = 150"

definition AMBIENT_LIGHT_LEVEL :: real where
  "AMBIENT_LIGHT_LEVEL = 1 / 100"

definition LIGHT_FALLOFF_SHARPNESS :: real where
  "LIGHT_FALLOFF_SHARPNESS = 9 / 10"

section \<open>level.js: the tile grid\<close>

datatype error = TypeError

record canvas =
  width :: real
  height :: real

record level =
  mapData :: "int list list"
  mapHeight :: nat
  mapWidth :: nat
  canvasPixelHeight :: real
  canvasPixelWidth :: real
  tileHeight :: real
  tileWidth :: real

text \<open>
  The constructor stores the layout and reads its dimensions: the height is the number of
  rows and the width is the length of row 0. It checks nothing. Reading \<open>mapData[0].length\<close>
  of a layout without rows is a property access on \<open>undefined\<close>, which throws a TypeError;
  every other layout is accepted.
\<close>

definition Level_new :: "canvas \<Rightarrow> int list list \<Rightarrow> error + level" where
  "Level_new canvasElement mapLayoutArray =
     (case mapLayoutArray of
        [] \<Rightarrow> Inl TypeError
      | row0 # _ \<Rightarrow>
          Inr \<lparr> mapData = mapLayoutArray,
                mapHeight = length mapLayoutArray,
                mapWidth = length row0,
                canvasPixelHeight = height canvasElement,
                canvasPixelWidth = width canvasElement,
                tileHeight = tileSize,
                tileWidth = tileSize \<rparr>)"

text \<open>
  \<open>mapData[tileY][tileX]\<close> for integral indices: \<open>None\<close> stands for \<open>undefined\<close>, which is
  what JavaScript yields for an index outside the row (a row shorter than row 0). For a
  level built by the constructor the row itself exists whenever \<open>0 \<le> tileY < mapHeight\<close>.
\<close>

definition cell :: "int list list \<Rightarrow> int \<Rightarrow> int \<Rightarrow> int option" where
  "cell grid tileY tileX =
     (if 0 \<le> tileY \<and> tileY < int (length grid)
      then (let row = grid ! nat tileY
            in if 0 \<le> tileX \<and> tileX < int (length row) then Some (row ! nat tileX) else None)
      else None)"

text \<open>The bounds test shared by \<open>hasCollision\<close> and \<open>getTileValue\<close>.\<close>

definition inBounds :: "level \<Rightarrow> jsint \<Rightarrow> jsint \<Rightarrow> bool" where
  "inBounds lvl tileX tileY =
     (js_ge (num tileY) (Fin 0) \<and> js_lt (num tileY) (Fin (real (mapHeight lvl))) \<and>
      js_ge (num tileX) (Fin 0) \<and> js_lt (num tileX) (Fin (real (mapWidth lvl))))"

text \<open>
  \<open>hasCollision\<close>: a tile is blocked when it lies outside the map, or when the stored value
  is not \<open>0\<close> (\<open>undefined !== 0\<close> holds as well). A coordinate that is NaN or infinite
  fails the bounds test and so takes the \<open>else\<close> branch.
\<close>

fun hasCollision :: "level \<Rightarrow> jsint \<Rightarrow> jsint \<Rightarrow> bool" where
  "hasCollision lvl (IFin tileX) (IFin tileY) =
     (if inBounds lvl (IFin tileX) (IFin tileY)
      then (if cell (mapData lvl) tileY tileX \<noteq> Some 0 then True else False)
      else True)"
| "hasCollision lvl tileX tileY = True"

fun getTileValue :: "level \<Rightarrow> jsnum \<Rightarrow> jsnum \<Rightarrow> int option" where
  "getTileValue lvl worldX worldY =
     (let tileX = Math_floor (js_div worldX (Fin (tileWidth lvl)));
          tileY = Math_floor (js_div worldY (Fin (tileHeight lvl)))
      in if inBounds lvl tileX tileY
         then (case (tileX, tileY) of
                 (IFin tx, IFin ty) \<Rightarrow> cell (mapData lvl) ty tx
               | _ \<Rightarrow> Some 0)
         else Some 0)"

section \<open>utils.js\<close>

definition normalizeAngle :: "jsnum \<Rightarrow> jsnum" where
  "normalizeAngle angle =
     (let angle = js_mod angle (js_mul (Fin 2) Math_PI)
      in if js_lt angle (Fin 0) then js_add (js_mul (Fin 2) Math_PI) angle else angle)"

definition distanceBetweenPoints :: "jsnum \<Rightarrow> jsnum \<Rightarrow> jsnum \<Rightarrow> jsnum \<Rightarrow> jsnum" where
  "distanceBetweenPoints x1 y1 x2 y2 =
     Math_sqrt (js_add (Math_pow (js_sub x2 x1) 2) (Math_pow (js_sub y2 y1) 2))"

section \<open>Global state: the depth buffer and the canvas\<close>

text \<open>
  \<open>zBuffer\<close> is a JavaScript array indexed by screen column. It is modelled as a map from
  indices to numbers: \<open>None\<close> is \<open>undefined\<close> (an index never written), and an assignment
  \<open>zBuffer[i] = v\<close> defines index \<open>i\<close> and touches no other index, whatever \<open>i\<close> is.
  The drawing calls that reach the canvas are recorded in order.
\<close>

type_synonym zbuffer = "int \<Rightarrow> jsnum option"

record htmlImage =
  image_complete :: bool
  naturalWidth :: nat
  naturalHeight :: nat

datatype drawcall =
    WallStrip jsnum jsnum int jsnum jsnum
  | Darken jsnum int jsnum jsnum
  | DebugLine jsnum jsnum jsnum jsnum
  | SpriteStrip htmlImage int int real real jsnum

text \<open>
  \<open>WallStrip sx sy screenX screenY0 h\<close> is
  \<open>drawImage(wallTexturesImage, sx, sy, 1, 64, screenX, screenY0, 1, h)\<close>;
  \<open>Darken a screenX screenY0 h\<close> is \<open>fillRect(screenX, screenY0, 1, h)\<close> in black with opacity
  \<open>a\<close>; \<open>SpriteStrip img sx screenX screenY0 h alpha\<close> is
  \<open>drawImage(img, sx, 0, 1, naturalHeight, screenX, screenY0, 1, h)\<close> under \<open>globalAlpha = alpha\<close>.
\<close>

record player =
  player_x :: real
  player_y :: real
  rotationAngle :: real

record globals =
  zBuffer :: zbuffer
  thePlayer :: "player option"
  renderMode :: int
  canvasCalls :: "drawcall list"

text \<open>\<open>new Array(canvasWidth).fill(Infinity)\<close>, the buffer at the start of a frame.\<close>

definition freshZBuffer :: zbuffer where
  "freshZBuffer i = (if 0 \<le> i \<and> i < canvasWidth then Some PInf else None)"

section \<open>ray.js\<close>

record ray =
  gameLevel :: level
  ray_x :: jsnum
  ray_y :: jsnum
  relativeAngleOffset :: jsnum
  playerAngle :: jsnum
  absoluteAngle :: jsnum
  wallHitX :: jsnum
  wallHitY :: jsnum
  horizontalWallHitX :: jsnum
  horizontalWallHitY :: jsnum
  verticalWallHitX :: jsnum
  verticalWallHitY :: jsnum
  screenColumn :: int
  correctedDistance :: jsnum
  directDistance :: jsnum
  texturePixelX :: jsnum
  textureId :: "int option"
  projectionPlaneDistance :: jsnum

definition Ray_new :: "level \<Rightarrow> jsnum \<Rightarrow> jsnum \<Rightarrow> jsnum \<Rightarrow> jsnum \<Rightarrow> int \<Rightarrow> ray" where
  "Ray_new gameLevelInstance x y playerAngle' relativeAngleOffset' screenColumn' =
     \<lparr> gameLevel = gameLevelInstance,
       ray_x = x,
       ray_y = y,
       relativeAngleOffset = relativeAngleOffset',
       playerAngle = playerAngle',
       absoluteAngle = normalizeAngle (js_add playerAngle' relativeAngleOffset'),
       wallHitX = Fin 0,
       wallHitY = Fin 0,
       horizontalWallHitX = Fin 0,
       horizontalWallHitY = Fin 0,
       verticalWallHitX = Fin 0,
       verticalWallHitY = Fin 0,
       screenColumn = screenColumn',
       correctedDistance = Fin 0,
       directDistance = Fin 0,
       texturePixelX = Fin 0,
       textureId = Some 0,
       projectionPlaneDistance =
         js_div (js_div (Fin (of_int canvasWidth)) (Fin 2)) (Math_tan (Fin FOV_RADIANS_HALF)) \<rparr>"

definition setAngle :: "ray \<Rightarrow> jsnum \<Rightarrow> ray" where
  "setAngle r newPlayerAngle =
     r\<lparr> playerAngle := newPlayerAngle,
        absoluteAngle := normalizeAngle (js_add newPlayerAngle (relativeAngleOffset r)) \<rparr>"

text \<open>\<open>n - 1\<close> on the result of \<open>Math.floor\<close>.\<close>

fun js_dec :: "jsint \<Rightarrow> jsint" where
  "js_dec (IFin i) = IFin (i - 1)"
| "js_dec IPInf = IPInf"
| "js_dec INInf = INInf"
| "js_dec INaN = INaN"

definition isFacingDown :: "ray \<Rightarrow> bool" where
  "isFacingDown r = (js_gt (absoluteAngle r) (Fin 0) \<and> js_lt (absoluteAngle r) Math_PI)"

definition isFacingLeft :: "ray \<Rightarrow> bool" where
  "isFacingLeft r =
     (js_gt (absoluteAngle r) (js_div Math_PI (Fin 2)) \<and>
      js_lt (absoluteAngle r) (js_div (js_mul (Fin 3) Math_PI) (Fin 2)))"

text \<open>The test that ends a march because the cell to check lies outside the grid.\<close>

definition outsideGrid :: "level \<Rightarrow> jsint \<Rightarrow> jsint \<Rightarrow> bool" where
  "outsideGrid lvl checkCellX checkCellY =
     (js_lt (num checkCellX) (Fin 0) \<or> js_ge (num checkCellX) (Fin (real (mapWidth lvl))) \<or>
      js_lt (num checkCellY) (Fin 0) \<or> js_ge (num checkCellY) (Fin (real (mapHeight lvl))))"

text \<open>
  The two \<open>while (!found...)\<close> loops of \<open>cast\<close>. Nothing in a loop bounds the number of
  its iterations, so each is given fuel: one unit per execution of the loop body, and
  \<open>None\<close> when the fuel is used up before the loop has ended. The result is the pair
  stored in \<open>horizontalWallHitX/Y\<close> (\<open>verticalWallHitX/Y\<close>): the point of the hit, or
  \<open>(Infinity, Infinity)\<close> when the march has left the grid.
\<close>

fun horizontalMarch ::
  "nat \<Rightarrow> level \<Rightarrow> bool \<Rightarrow> jsnum \<Rightarrow> jsnum \<Rightarrow> jsnum \<Rightarrow> jsnum \<Rightarrow> (jsnum \<times> jsnum) option" where
  "horizontalMarch 0 lvl facingDown hStepX hStepY nextHorizontalX nextHorizontalY = None"
| "horizontalMarch (Suc fuel) lvl facingDown hStepX hStepY nextHorizontalX nextHorizontalY =
     (let checkCellX = Math_floor (js_div nextHorizontalX (Fin tileSize));
          checkCellY = (if facingDown then Math_floor (js_div nextHorizontalY (Fin tileSize))
                        else js_dec (Math_floor (js_div nextHorizontalY (Fin tileSize))))
      in if outsideGrid lvl checkCellX checkCellY then Some (PInf, PInf)
         else if hasCollision lvl checkCellX checkCellY
         then Some (nextHorizontalX, nextHorizontalY)
         else horizontalMarch fuel lvl facingDown hStepX hStepY
                (js_add nextHorizontalX hStepX) (js_add nextHorizontalY hStepY))"

fun verticalMarch ::
  "nat \<Rightarrow> level \<Rightarrow> bool \<Rightarrow> jsnum \<Rightarrow> jsnum \<Rightarrow> jsnum \<Rightarrow> jsnum \<Rightarrow> (jsnum \<times> jsnum) option" where
  "verticalMarch 0 lvl facingLeft vStepX vStepY nextVerticalX nextVerticalY = None"
| "verticalMarch (Suc fuel) lvl facingLeft vStepX vStepY nextVerticalX nextVerticalY =
     (let checkCellX = (if facingLeft then js_dec (Math_floor (js_div nextVerticalX (Fin tileSize)))
                        else Math_floor (js_div nextVerticalX (Fin tileSize)));
          checkCellY = Math_floor (js_div nextVerticalY (Fin tileSize))
      in if outsideGrid lvl checkCellX checkCellY then Some (PInf, PInf)
         else if hasCollision lvl checkCellX checkCellY
         then Some (nextVerticalX, nextVerticalY)
         else verticalMarch fuel lvl facingLeft vStepX vStepY
                (js_add nextVerticalX vStepX) (js_add nextVerticalY vStepY))"

text \<open>The first part of \<open>cast\<close>: the first horizontal grid line, the steps, and the march.\<close>

definition horizontalIntersections :: "nat \<Rightarrow> ray \<Rightarrow> (jsnum \<times> jsnum) option" where
  "horizontalIntersections fuel r =
     (let hIntersectionY = js_mul (num (Math_floor (js_div (ray_y r) (Fin tileSize)))) (Fin tileSize);
          hIntersectionY = (if isFacingDown r then js_add hIntersectionY (Fin tileSize)
                            else hIntersectionY);
          hAdjacentSide = js_div (js_sub hIntersectionY (ray_y r)) (Math_tan (absoluteAngle r));
          hIntersectionX = js_add (ray_x r) hAdjacentSide;
          hStepY = Fin tileSize;
          hStepY = (if \<not> isFacingDown r then js_mul hStepY (Fin (- 1)) else hStepY);
          hStepX = js_div (Fin tileSize) (Math_tan (absoluteAngle r));
          hStepX = (if (isFacingLeft r \<and> js_gt hStepX (Fin 0)) \<or>
                       (\<not> isFacingLeft r \<and> js_lt hStepX (Fin 0))
                    then js_mul hStepX (Fin (- 1)) else hStepX)
      in horizontalMarch fuel (gameLevel r) (isFacingDown r) hStepX hStepY
           hIntersectionX hIntersectionY)"

text \<open>The second part: the first vertical grid line, the steps, and the march.\<close>

definition verticalIntersections :: "nat \<Rightarrow> ray \<Rightarrow> (jsnum \<times> jsnum) option" where
  "verticalIntersections fuel r =
     (let vIntersectionX = js_mul (num (Math_floor (js_div (ray_x r) (Fin tileSize)))) (Fin tileSize);
          vIntersectionX = (if \<not> isFacingLeft r then js_add vIntersectionX (Fin tileSize)
                            else vIntersectionX);
          vOppositeSide = js_mul (js_sub vIntersectionX (ray_x r)) (Math_tan (absoluteAngle r));
          vIntersectionY = js_add (ray_y r) vOppositeSide;
          vStepX = Fin tileSize;
          vStepX = (if isFacingLeft r then js_mul vStepX (Fin (- 1)) else vStepX);
          vStepY = js_mul (Fin tileSize) (Math_tan (absoluteAngle r));
          vStepY = (if (\<not> isFacingDown r \<and> js_gt vStepY (Fin 0)) \<or>
                       (isFacingDown r \<and> js_lt vStepY (Fin 0))
                    then js_mul vStepY (Fin (- 1)) else vStepY)
      in verticalMarch fuel (gameLevel r) (isFacingLeft r) vStepX vStepY
           vIntersectionX vIntersectionY)"

text \<open>
  The third part: the two distances and the choice of the nearer hit. \<open>getTileValue\<close> is
  called as the code calls it, with tile indices where it expects world coordinates.
\<close>

definition chooseHit :: "ray \<Rightarrow> ray" where
  "chooseHit r =
     (let horizontalHitDistance =
            (if horizontalWallHitX r \<noteq> PInf
             then distanceBetweenPoints (ray_x r) (ray_y r)
                    (horizontalWallHitX r) (horizontalWallHitY r)
             else PInf);
          verticalHitDistance =
            (if verticalWallHitX r \<noteq> PInf
             then distanceBetweenPoints (ray_x r) (ray_y r)
                    (verticalWallHitX r) (verticalWallHitY r)
             else PInf)
      in if js_lt horizontalHitDistance verticalHitDistance
         then (let wallTileY =
                     (if isFacingDown r
                      then Math_floor (js_div (horizontalWallHitY r) (Fin tileSize))
                      else js_dec (Math_floor (js_div (horizontalWallHitY r) (Fin tileSize))))
               in r\<lparr> wallHitX := horizontalWallHitX r,
                     wallHitY := horizontalWallHitY r,
                     directDistance := horizontalHitDistance,
                     texturePixelX := js_mod (horizontalWallHitX r) (Fin tileSize),
                     textureId := getTileValue (gameLevel r)
                        (num (Math_floor (js_div (horizontalWallHitX r) (Fin tileSize))))
                        (num wallTileY) \<rparr>)
         else (let wallTileX =
                     (if isFacingLeft r
                      then js_dec (Math_floor (js_div (verticalWallHitX r) (Fin tileSize)))
                      else Math_floor (js_div (verticalWallHitX r) (Fin tileSize)))
               in r\<lparr> wallHitX := verticalWallHitX r,
                     wallHitY := verticalWallHitY r,
                     directDistance := verticalHitDistance,
                     texturePixelX := js_mod (verticalWallHitY r) (Fin tileSize),
                     textureId := getTileValue (gameLevel r) (num wallTileX)
                        (num (Math_floor (js_div (verticalWallHitY r) (Fin tileSize)))) \<rparr>))"

definition cast :: "nat \<Rightarrow> globals \<Rightarrow> ray \<Rightarrow> (ray \<times> globals) option" where
  "cast fuel g r =
     (case horizontalIntersections fuel r of
        None \<Rightarrow> None
      | Some (hx, hy) \<Rightarrow>
         (case verticalIntersections fuel r of
            None \<Rightarrow> None
          | Some (vx, vy) \<Rightarrow>
             (let r1 = chooseHit (r\<lparr> horizontalWallHitX := hx, horizontalWallHitY := hy,
                                      verticalWallHitX := vx, verticalWallHitY := vy \<rparr>)
              in if directDistance r1 = PInf
                 then (let r2 = r1\<lparr> directDistance := MAX_SAFE_INTEGER,
                                     correctedDistance := MAX_SAFE_INTEGER \<rparr>
                       in Some (r2, g\<lparr> zBuffer := (zBuffer g)(screenColumn r2 \<mapsto> directDistance r2) \<rparr>))
                 else (let r2 = r1\<lparr> correctedDistance :=
                                       js_mul (directDistance r1) (Math_cos (relativeAngleOffset r1)) \<rparr>
                       in Some (r2, g\<lparr> zBuffer := (zBuffer g)(screenColumn r2 \<mapsto> directDistance r2) \<rparr>)))))"

text \<open>The lighting computation of \<open>renderWallStrip\<close>.\<close>

definition wallBrightness :: "jsnum \<Rightarrow> real \<Rightarrow> real \<Rightarrow> real \<Rightarrow> jsnum" where
  "wallBrightness directDistance' lightRadius ambientLight falloffSharpness =
     (let brightness =
        (if js_le directDistance' (Fin lightRadius)
         then (let normalizedDistance = js_div directDistance' (Fin lightRadius)
               in js_add (Fin ambientLight)
                    (js_mul (js_sub (Fin 1) (Fin ambientLight))
                       (Math_pow (js_sub (Fin 1) normalizedDistance) falloffSharpness)))
         else Fin ambientLight)
      in Math_max (Fin ambientLight) (Math_min (Fin 1) brightness))"

definition renderWallStrip :: "ray \<Rightarrow> drawcall list" where
  "renderWallStrip r =
     (if js_ge (directDistance r) MAX_SAFE_INTEGER \<or> textureId r = Some 0 then []
      else
        (let projectedWallHeight =
               js_mul (js_div (Fin tileSize) (correctedDistance r)) (projectionPlaneDistance r);
             screenY0 = js_sub (js_div (Fin (of_int canvasHeight)) (Fin 2))
                               (js_div projectedWallHeight (Fin 2));
             screenX = screenColumn r;
             originalTextureHeight = 64;
             originalTextureWidth = 64;
             textureSourceX = num (Math_floor (texturePixelX r));
             textureSourceX =
               Math_max (Fin 0) (Math_min textureSourceX (Fin (originalTextureWidth - 1)));
             textureAtlasOffsetY =
               (case textureId r of
                  None \<Rightarrow> NaN
                | Some t \<Rightarrow> js_mul (Fin (of_int t - 1)) (Fin originalTextureHeight));
             textureAtlasOffsetY =
               (if js_lt textureAtlasOffsetY (Fin 0) then Fin 0 else textureAtlasOffsetY);
             brightness = wallBrightness (directDistance r) PLAYER_LIGHT_RADIUS
                            AMBIENT_LIGHT_LEVEL LIGHT_FALLOFF_SHARPNESS
         in WallStrip textureSourceX textureAtlasOffsetY screenX screenY0 projectedWallHeight #
            (if js_lt brightness (Fin (999 / 1000))
             then [Darken (js_sub (Fin 1) brightness) screenX screenY0 projectedWallHeight]
             else [])))"

definition Ray_draw :: "nat \<Rightarrow> globals \<Rightarrow> ray \<Rightarrow> (ray \<times> globals) option" where
  "Ray_draw fuel g r =
     (case cast fuel g r of
        None \<Rightarrow> None
      | Some (r', g') \<Rightarrow>
          if renderMode g' = 0
          then (if textureId r' \<noteq> Some 0
                then Some (r', g'\<lparr> canvasCalls := canvasCalls g' @ renderWallStrip r' \<rparr>)
                else Some (r', g'))
          else (if wallHitX r' = PInf \<or> wallHitY r' = PInf then Some (r', g')
                else Some (r', g'\<lparr> canvasCalls := canvasCalls g' @
                                   [DebugLine (ray_x r') (ray_y r') (wallHitX r') (wallHitY r')] \<rparr>)))"

section \<open>Sprite.js\<close>

text \<open>
  \<open>Sprite.draw\<close> floors computed numbers and compares them with stored ones, and there a
  rounding error of the double arithmetic can change the outcome. So this file is embedded
  over an arbitrary arithmetic: a record of the operations on finite numbers, about which
  nothing is assumed. What is proved of \<open>Sprite.draw\<close> holds for every such record: for the
  operations of a JavaScript engine, as long as they return finite numbers, and for the
  exact operations. Negation, the absolute value, \<open>Math.floor\<close>, the comparisons and
  the arithmetic on the integers of the column loop are exact on doubles and are written
  with the operations of the logic.
\<close>

record float_ops =
  fl_add :: "real \<Rightarrow> real \<Rightarrow> real"
  fl_sub :: "real \<Rightarrow> real \<Rightarrow> real"
  fl_mul :: "real \<Rightarrow> real \<Rightarrow> real"
  fl_div :: "real \<Rightarrow> real \<Rightarrow> real"
  fl_sqrt :: "real \<Rightarrow> real"
  fl_pow :: "real \<Rightarrow> real \<Rightarrow> real"
  fl_cos :: "real \<Rightarrow> real"
  fl_tan :: "real \<Rightarrow> real"
  fl_atan2 :: "real \<Rightarrow> real \<Rightarrow> real"

text \<open>
  Sprite and player coordinates are finite numbers. On the paths of \<open>draw\<close> that compute
  with them the engine divides by no zero: the corrected distance is above \<open>0.1\<close>, the
  image height is tested, the tangent of half the field of view is not \<open>0\<close>, and the loop
  body runs only when adding the screen width to the left edge has changed it. The field
  \<open>distanceToPlayer\<close> holds a JavaScript number, since the code stores \<open>Infinity\<close> in it.
\<close>

record sprite =
  sprite_x :: real
  sprite_y :: real
  sprite_image :: "htmlImage option"
  hasRenderingContext :: bool
  distanceToPlayer :: jsnum
  angleRelativeToPlayerView :: real
  visible :: bool
  flipped :: bool
  worldHeight :: "real option"

text \<open>
  What \<open>Sprite.js\<close> uses of \<open>utils.js\<close> and \<open>config.js\<close>, over the arithmetic \<open>ar\<close>:
  \<open>distanceBetweenPoints\<close> on finite coordinates, and the constant \<open>FOV_RADIANS_HALF\<close>.
\<close>

definition distanceBetweenPoints_fl :: "float_ops \<Rightarrow> real \<Rightarrow> real \<Rightarrow> real \<Rightarrow> real \<Rightarrow> real" where
  "distanceBetweenPoints_fl ar x1 y1 x2 y2 =
     fl_sqrt ar (fl_add ar (fl_pow ar (fl_sub ar x2 x1) 2) (fl_pow ar (fl_sub ar y2 y1) 2))"

definition degreesToRadians_fl :: "float_ops \<Rightarrow> real \<Rightarrow> real" where
  "degreesToRadians_fl ar angleInDegrees = fl_mul ar angleInDegrees (fl_div ar mathPI 180)"

definition FOV_RADIANS_HALF_fl :: "float_ops \<Rightarrow> real" where
  "FOV_RADIANS_HALF_fl ar = degreesToRadians_fl ar (fl_div ar FOV_DEGREES 2)"

text \<open>The literal \<open>0.1\<close>: the double nearest to one tenth.\<close>

definition double_0_1 :: real where
  "double_0_1 = 3602879701896397 / 36028797018963968"

definition calculateRenderData :: "float_ops \<Rightarrow> globals \<Rightarrow> sprite \<Rightarrow> sprite \<times> bool" where
  "calculateRenderData ar g s =
     (case thePlayer g of
        None \<Rightarrow> (s\<lparr> distanceToPlayer := PInf \<rparr>, False)
      | Some p \<Rightarrow>
         (let s1 = s\<lparr> distanceToPlayer :=
                        Fin (distanceBetweenPoints_fl ar (player_x p) (player_y p)
                               (sprite_x s) (sprite_y s)) \<rparr>;
              vectorX = fl_sub ar (sprite_x s1) (player_x p);
              vectorY = fl_sub ar (sprite_y s1) (player_y p);
              anglePlayerToSprite = fl_atan2 ar vectorY vectorX;
              angleDifference = fl_sub ar (rotationAngle p) anglePlayerToSprite;
              angleDifference = (if angleDifference < - mathPI
                                 then fl_add ar angleDifference (fl_mul ar 2 mathPI)
                                 else angleDifference);
              angleDifference = (if mathPI < angleDifference
                                 then fl_sub ar angleDifference (fl_mul ar 2 mathPI)
                                 else angleDifference);
              s2 = s1\<lparr> angleRelativeToPlayerView := angleDifference \<rparr>
          in (s2, \<bar>angleRelativeToPlayerView s2\<bar> < FOV_RADIANS_HALF_fl ar)))"

text \<open>
  The lighting computation of \<open>Sprite.draw\<close>, written like the one of \<open>renderWallStrip\<close>
  on JavaScript numbers with exact finite arithmetic.
\<close>

definition spriteBrightness :: "jsnum \<Rightarrow> real \<Rightarrow> real \<Rightarrow> real \<Rightarrow> jsnum" where
  "spriteBrightness distanceToPlayer' lightRadius ambientLight falloffSharpness =
     (let brightness =
        (if js_gt distanceToPlayer' (Fin lightRadius) then Fin ambientLight
         else if js_gt distanceToPlayer' (Fin 0)
         then (let normalizedDistance = js_div distanceToPlayer' (Fin lightRadius)
               in js_add (Fin ambientLight)
                    (js_mul (js_sub (Fin 1) (Fin ambientLight))
                       (Math_pow (js_sub (Fin 1) normalizedDistance) falloffSharpness)))
         else Fin 1)
      in Math_max (Fin ambientLight) (Math_min (Fin 1) brightness))"

text \<open>\<open>zBuffer[screenPixelX] > correctedDistanceForProjection\<close>; \<open>undefined\<close> compares false.\<close>

definition zBufferGreater :: "jsnum option \<Rightarrow> real \<Rightarrow> bool" where
  "zBufferGreater z d = (case z of None \<Rightarrow> False | Some v \<Rightarrow> js_gt v (Fin d))"

definition sourceTextureColumn ::
  "float_ops \<Rightarrow> htmlImage \<Rightarrow> bool \<Rightarrow> real \<Rightarrow> real \<Rightarrow> int \<Rightarrow> int" where
  "sourceTextureColumn ar img flip spriteLeftScreenX spriteScreenWidth screenPixelX =
     (let originalTextureWidth = int (naturalWidth img);
          textureXProportion =
            fl_div ar (fl_sub ar (of_int screenPixelX) spriteLeftScreenX) spriteScreenWidth;
          sourceColumn = \<lfloor>fl_mul ar textureXProportion (of_int originalTextureWidth)\<rfloor>;
          sourceColumn = (if flip then (originalTextureWidth - 1) - sourceColumn else sourceColumn)
      in max 0 (min (originalTextureWidth - 1) sourceColumn))"

text \<open>The loop over the screen columns of the sprite, from \<open>screenPixelX\<close> up to the end.\<close>

function drawColumns ::
  "float_ops \<Rightarrow> zbuffer \<Rightarrow> htmlImage \<Rightarrow> bool \<Rightarrow> real \<Rightarrow> real \<Rightarrow> real \<Rightarrow> real \<Rightarrow> real \<Rightarrow> jsnum
     \<Rightarrow> int \<Rightarrow> int \<Rightarrow> drawcall list" where
  "drawColumns ar zb img flip correctedDistanceForProjection spriteLeftScreenX spriteScreenWidth
       screenY0 spriteScreenHeight alpha screenPixelX endScreenPixelX =
     (if screenPixelX < endScreenPixelX
      then (if screenPixelX < 0 \<or> canvasWidth \<le> screenPixelX
            then drawColumns ar zb img flip correctedDistanceForProjection spriteLeftScreenX
                   spriteScreenWidth screenY0 spriteScreenHeight alpha
                   (screenPixelX + 1) endScreenPixelX
            else if zBufferGreater (zb screenPixelX) correctedDistanceForProjection
            then SpriteStrip img
                   (sourceTextureColumn ar img flip spriteLeftScreenX spriteScreenWidth
                      screenPixelX)
                   screenPixelX screenY0 spriteScreenHeight alpha #
                 drawColumns ar zb img flip correctedDistanceForProjection spriteLeftScreenX
                   spriteScreenWidth screenY0 spriteScreenHeight alpha
                   (screenPixelX + 1) endScreenPixelX
            else drawColumns ar zb img flip correctedDistanceForProjection spriteLeftScreenX
                   spriteScreenWidth screenY0 spriteScreenHeight alpha
                   (screenPixelX + 1) endScreenPixelX)
      else [])"
  by pat_completeness auto
termination
  by (relation "measure (\<lambda>(ar, zb, img, flip, d, left, w, y0, h, alpha, a, b). nat (b - a))") auto

declare drawColumns.simps [simp del]

text \<open>
  \<open>Sprite.draw\<close>. When \<open>calculateRenderData\<close> has returned true the player exists and the
  stored distance is finite, so the last case of the distinction below is never taken.
\<close>

definition Sprite_draw :: "float_ops \<Rightarrow> globals \<Rightarrow> sprite \<Rightarrow> sprite \<times> globals" where
  "Sprite_draw ar g s =
     (if \<not> visible s then (s, g)
      else
        (let (s1, isInFOV) = calculateRenderData ar g s
         in if \<not> isInFOV then (s1, g)
            else
              (case (distanceToPlayer s1, sprite_image s1) of
                 (Fin distance, Some img) \<Rightarrow>
                   if renderMode g = 0 \<and> hasRenderingContext s1 \<and> image_complete img \<and>
                      naturalHeight img \<noteq> 0
                   then
                     (let projectionPlaneDistance' =
                            fl_div ar (fl_div ar (of_int canvasWidth) 2)
                              (fl_tan ar (FOV_RADIANS_HALF_fl ar));
                          spriteActualWorldHeight =
                            (case worldHeight s1 of Some h \<Rightarrow> h | None \<Rightarrow> tileSize);
                          correctedDistanceForProjection =
                            fl_mul ar distance (fl_cos ar (angleRelativeToPlayerView s1))
                      in if correctedDistanceForProjection \<le> double_0_1 then (s1, g)
                         else
                           (let spriteScreenHeight =
                                  fl_mul ar
                                    (fl_div ar spriteActualWorldHeight correctedDistanceForProjection)
                                    projectionPlaneDistance';
                                screenY0 = fl_sub ar (fl_div ar (of_int canvasHeight) 2)
                                             (fl_div ar spriteScreenHeight 2);
                                originalTextureHeight = real (naturalHeight img);
                                originalTextureWidth = real (naturalWidth img);
                                spriteScreenWidth =
                                  fl_mul ar spriteScreenHeight
                                    (fl_div ar originalTextureWidth originalTextureHeight);
                                xOffsetFromCenterScreen =
                                  fl_mul ar (fl_tan ar (- angleRelativeToPlayerView s1))
                                    projectionPlaneDistance';
                                spriteCenterScreenX =
                                  fl_add ar (fl_div ar (of_int canvasWidth) 2) xOffsetFromCenterScreen;
                                spriteLeftScreenX =
                                  fl_sub ar spriteCenterScreenX (fl_div ar spriteScreenWidth 2);
                                brightness = spriteBrightness (distanceToPlayer s1)
                                               PLAYER_LIGHT_RADIUS AMBIENT_LIGHT_LEVEL
                                               LIGHT_FALLOFF_SHARPNESS;
                                startScreenPixelX = \<lfloor>spriteLeftScreenX\<rfloor>;
                                endScreenPixelX = \<lfloor>fl_add ar spriteLeftScreenX spriteScreenWidth\<rfloor>
                            in (s1, g\<lparr> canvasCalls := canvasCalls g @
                                        drawColumns ar (zBuffer g) img (flipped s1)
                                          correctedDistanceForProjection spriteLeftScreenX
                                          spriteScreenWidth screenY0 spriteScreenHeight brightness
                                          startScreenPixelX endScreenPixelX \<rparr>)))
                   else (s1, g)
               | _ \<Rightarrow> (s1, g))))"

text \<open>The destination column of a one-column strip.\<close>

fun stripColumn :: "drawcall \<Rightarrow> int option" where
  "stripColumn (SpriteStrip img sx screenX screenY0 h alpha) = Some screenX"
| "stripColumn (WallStrip sx sy screenX screenY0 h) = Some screenX"
| "stripColumn (Darken a screenX screenY0 h) = None"
| "stripColumn (DebugLine x1 y1 x2 y2) = None"

section \<open>The room of the specification's example\<close>



definition gameCanvas :: canvas where
  "gameCanvas = \<lparr> width = 500, height = 500 \<rparr>"


definition frameStart :: globals where
  "frameStart = \<lparr> zBuffer = freshZBuffer, thePlayer = None, renderMode = 0, canvasCalls = [] \<rparr>"

text \<open>A room of three by three tiles whose east wall has an opening in the middle row.\<close>

definition doorLevel :: level where
  "doorLevel = \<lparr> mapData = [[1, 1, 1], [1, 0, 0], [1, 1, 1]], mapHeight = 3, mapWidth = 3,
       canvasPixelHeight = 500, canvasPixelWidth = 500, tileHeight = 50, tileWidth = 50 \<rparr>"



text \<open>
  The arithmetic without rounding. \<open>Math.atan2\<close> is the angle of the point \<open>(x, y)\<close> in
  \<open>(-\<pi>, \<pi>]\<close>; the power is the one defined above, on finite results.
\<close>

definition Math_atan2 :: "real \<Rightarrow> real \<Rightarrow> real" where
  "Math_atan2 y x =
     (if 0 < x then arctan (y / x)
      else if x < 0 then (if 0 \<le> y then arctan (y / x) + pi else arctan (y / x) - pi)
      else if 0 < y then pi / 2
      else if y < 0 then - (pi / 2)
      else 0)"

definition exactOps :: float_ops where
  "exactOps = \<lparr> fl_add = (\<lambda>a b. a + b), fl_sub = (\<lambda>a b. a - b), fl_mul = (\<lambda>a b. a * b),
       fl_div = (\<lambda>a b. a / b), fl_sqrt = sqrt,
       fl_pow = (\<lambda>b e. case Math_pow (Fin b) e of Fin v \<Rightarrow> v | _ \<Rightarrow> 0),
       fl_cos = cos, fl_tan = tan, fl_atan2 = Math_atan2 \<rparr>"

text \<open>
  A sprite with an image of \<open>64 \<times> 64\<close> pixels in the room, four tiles east of a player who
  looks east, in a frame whose depth buffer holds a wall at distance \<open>100\<close> in column \<open>250\<close>
  and nothing in the other columns.
\<close>

definition eastPlayer :: player where
  "eastPlayer = \<lparr> player_x = 75, player_y = 75, rotationAngle = 0 \<rparr>"

definition spriteFrame :: globals where
  "spriteFrame = \<lparr> zBuffer = freshZBuffer(250 \<mapsto> Fin 100), thePlayer = Some eastPlayer,
       renderMode = 0, canvasCalls = [] \<rparr>"

definition orbImage :: htmlImage where
  "orbImage = \<lparr> image_complete = True, naturalWidth = 64, naturalHeight = 64 \<rparr>"

definition orbSprite :: sprite where
  "orbSprite = \<lparr> sprite_x = 275, sprite_y = 75, sprite_image = Some orbImage,
       hasRenderingContext = True, distanceToPlayer = Fin 0, angleRelativeToPlayerView = 0,
       visible = True, flipped = False, worldHeight = None \<rparr>"

text \<open>
  The real number that both lighting computations yield for parameters in their ranges;
  an abbreviation used in the proofs about them.
\<close>

abbreviation falloff :: "real \<Rightarrow> real \<Rightarrow> real \<Rightarrow> real \<Rightarrow> real" where
  "falloff d R A k \<equiv> (if R < d then A else A + (1 - A) * (1 - d / R) powr k)"

section \<open>The tile grid: collision and value queries\<close>

lemma Level_new_Inr:
  "Level_new cv layout = Inr lvl \<Longrightarrow>
     layout \<noteq> [] \<and> mapData lvl = layout \<and> mapHeight lvl = length layout \<and>
     mapWidth lvl = length (hd layout) \<and> tileWidth lvl = tileSize \<and> tileHeight lvl = tileSize"
  by (auto simp: Level_new_def split: list.splits)

lemma inBounds_IFin:
  "inBounds lvl (IFin tx) (IFin ty) =
     (0 \<le> ty \<and> ty < int (mapHeight lvl) \<and> 0 \<le> tx \<and> tx < int (mapWidth lvl))"
  by (auto simp: inBounds_def js_ge_def)


text \<open>
  C5. For a level built by the constructor and an in-bounds tile \<open>(x, y)\<close>, \<open>hasCollision\<close>
  is true exactly when the stored value \<open>grid[y][x]\<close> is not zero (where row \<open>y\<close> is too short
  to hold column \<open>x\<close> the value is \<open>undefined\<close>, which is not zero either). For an
  out-of-bounds tile \<open>hasCollision\<close> is true, while \<open>getTileValue\<close> returns \<open>0\<close> for all
  world coordinates that fall into that tile.
\<close>

theorem hasCollision_getTileValue_bounds:
  assumes "Level_new cv grid = Inr lvl"
  shows "(0 \<le> y \<and> y < int (mapHeight lvl) \<and> 0 \<le> x \<and> x < int (mapWidth lvl) \<longrightarrow>
            hasCollision lvl (IFin x) (IFin y) =
              (if x < int (length (grid ! nat y)) then grid ! nat y ! nat x \<noteq> 0 else True))
       \<and> (\<not> (0 \<le> y \<and> y < int (mapHeight lvl) \<and> 0 \<le> x \<and> x < int (mapWidth lvl)) \<longrightarrow>
            hasCollision lvl (IFin x) (IFin y) \<and>
            (\<forall>worldX worldY.
               Math_floor (js_div worldX (Fin (tileWidth lvl))) = IFin x \<and>
               Math_floor (js_div worldY (Fin (tileHeight lvl))) = IFin y \<longrightarrow>
               getTileValue lvl worldX worldY = Some 0))"
proof -
  from assms have L: "mapData lvl = grid" "mapHeight lvl = length grid"
    using Level_new_Inr by blast+
  show ?thesis
    by (auto simp: inBounds_IFin cell_def L Let_def)
qed

theorem hasCollision_getTileValue_bounds_witness:
  "Level_new \<lparr>width = 500, height = 500\<rparr> [[1, 1, 1], [1, 0, 2], [1, 1, 1]] =
     Inr \<lparr>mapData = [[1, 1, 1], [1, 0, 2], [1, 1, 1]], mapHeight = 3, mapWidth = 3,
          canvasPixelHeight = 500, canvasPixelWidth = 500, tileHeight = 50, tileWidth = 50\<rparr>
   \<and> \<not> hasCollision \<lparr>mapData = [[1, 1, 1], [1, 0, 2], [1, 1, 1]], mapHeight = 3, mapWidth = 3,
          canvasPixelHeight = 500, canvasPixelWidth = 500, tileHeight = 50, tileWidth = 50\<rparr>
          (IFin 1) (IFin 1)
   \<and> hasCollision \<lparr>mapData = [[1, 1, 1], [1, 0, 2], [1, 1, 1]], mapHeight = 3, mapWidth = 3,
          canvasPixelHeight = 500, canvasPixelWidth = 500, tileHeight = 50, tileWidth = 50\<rparr>
          (IFin 2) (IFin 1)
   \<and> hasCollision \<lparr>mapData = [[1, 1, 1], [1, 0, 2], [1, 1, 1]], mapHeight = 3, mapWidth = 3,
          canvasPixelHeight = 500, canvasPixelWidth = 500, tileHeight = 50, tileWidth = 50\<rparr>
          (IFin 3) (IFin 1)
   \<and> getTileValue \<lparr>mapData = [[1, 1, 1], [1, 0, 2], [1, 1, 1]], mapHeight = 3, mapWidth = 3,
          canvasPixelHeight = 500, canvasPixelWidth = 500, tileHeight = 50, tileWidth = 50\<rparr>
          (Fin 175) (Fin 75) = Some 0"
proof -
  let ?lvl = "\<lparr>mapData = [[1, 1, 1], [1, 0, 2], [1, 1, 1]], mapHeight = 3, mapWidth = 3,
          canvasPixelHeight = 500, canvasPixelWidth = 500, tileHeight = 50, tileWidth = 50\<rparr>"
  have h: "Level_new \<lparr>width = 500, height = 500\<rparr> [[1, 1, 1], [1, 0, 2], [1, 1, 1]] = Inr ?lvl"
    by (simp add: Level_new_def tileSize_def)
  have a: "\<not> hasCollision ?lvl (IFin 1) (IFin 1)"
    using hasCollision_getTileValue_bounds [OF h, where x = 1 and y = 1] by simp
  have b: "hasCollision ?lvl (IFin 2) (IFin 1)"
    using hasCollision_getTileValue_bounds [OF h, where x = 2 and y = 1] by simp
  have "\<not> (0 \<le> (1::int) \<and> (1::int) < int (mapHeight ?lvl) \<and> 0 \<le> (3::int) \<and>
      (3::int) < int (mapWidth ?lvl))"
    by simp
  with hasCollision_getTileValue_bounds [OF h, where x = 3 and y = 1]
  have c: "hasCollision ?lvl (IFin 3) (IFin 1)"
    and d: "\<forall>worldX worldY.
               Math_floor (js_div worldX (Fin (tileWidth ?lvl))) = IFin 3 \<and>
               Math_floor (js_div worldY (Fin (tileHeight ?lvl))) = IFin 1 \<longrightarrow>
               getTileValue ?lvl worldX worldY = Some 0"
    by blast+
  have "Math_floor (js_div (Fin 175) (Fin (tileWidth ?lvl))) = IFin 3 \<and>
        Math_floor (js_div (Fin 75) (Fin (tileHeight ?lvl))) = IFin 1"
    by simp
  with d have e: "getTileValue ?lvl (Fin 175) (Fin 75) = Some 0"
    by blast
  from h a b c e show ?thesis by blast
qed

text \<open>
  C10 as the specification states it does not hold: the constructor accepts a layout whose
  rows differ in length, and a layout whose only row is empty, and returns a level.
\<close>

theorem Level_new_accepts_malformed:
  "Level_new \<lparr>width = 500, height = 500\<rparr> [[1, 1, 1], [1, 0], [1, 1, 1]] =
     Inr \<lparr>mapData = [[1, 1, 1], [1, 0], [1, 1, 1]], mapHeight = 3, mapWidth = 3,
          canvasPixelHeight = 500, canvasPixelWidth = 500, tileHeight = 50, tileWidth = 50\<rparr>
   \<and> Level_new \<lparr>width = 500, height = 500\<rparr> [[]] =
     Inr \<lparr>mapData = [[]], mapHeight = 1, mapWidth = 0,
          canvasPixelHeight = 500, canvasPixelWidth = 500, tileHeight = 50, tileWidth = 50\<rparr>"
  by (simp add: Level_new_def tileSize_def)

text \<open>
  C10, amended. The constructor validates nothing. It fails only for a layout with no rows
  at all (the TypeError of reading \<open>mapData[0].length\<close>). Every layout with at least one row,
  rectangular or not, gives a level with \<open>mapHeight\<close> the number of rows and \<open>mapWidth\<close>
  the length of row 0, and that level answers queries: inside these dimensions a cell
  missing from a short row counts as a collision.
\<close>

theorem Level_new_no_validation:
  "(grid = [] \<longrightarrow> Level_new cv grid = Inl TypeError)
   \<and> (grid \<noteq> [] \<longrightarrow>
        (\<exists>lvl. Level_new cv grid = Inr lvl \<and> mapData lvl = grid \<and>
           mapHeight lvl = length grid \<and> mapWidth lvl = length (hd grid) \<and>
           (\<forall>x y. 0 \<le> y \<and> y < int (length grid) \<and> 0 \<le> x \<and> x < int (length (hd grid)) \<and>
                  int (length (grid ! nat y)) \<le> x \<longrightarrow> hasCollision lvl (IFin x) (IFin y))))"
  by (cases grid) (auto simp: Level_new_def inBounds_IFin cell_def)

theorem Level_new_no_validation_witness:
  "[[1, 1, 1], [1, 0], [1, 1, 1]] \<noteq> ([] :: int list list)
   \<and> (\<exists>lvl. Level_new \<lparr>width = 500, height = 500\<rparr> [[1, 1, 1], [1, 0], [1, 1, 1]] = Inr lvl \<and>
          mapHeight lvl = 3 \<and> mapWidth lvl = 3 \<and> hasCollision lvl (IFin 2) (IFin 1))
   \<and> Level_new \<lparr>width = 500, height = 500\<rparr> [] = Inl TypeError"
proof -
  let ?g = "[[1, 1, 1], [1, 0], [1, 1, 1]] :: int list list"
  let ?cv = "\<lparr>width = 500, height = 500\<rparr>"
  have ne: "?g \<noteq> []" by simp
  from Level_new_no_validation [of ?g ?cv] ne
  obtain lvl where L: "Level_new ?cv ?g = Inr lvl" "mapHeight lvl = length ?g"
      "mapWidth lvl = length (hd ?g)"
    and C: "\<forall>x y. 0 \<le> y \<and> y < int (length ?g) \<and> 0 \<le> x \<and> x < int (length (hd ?g)) \<and>
                  int (length (?g ! nat y)) \<le> x \<longrightarrow> hasCollision lvl (IFin x) (IFin y)"
    by blast
  from C have "0 \<le> (1::int) \<and> (1::int) < int (length ?g) \<and> 0 \<le> (2::int) \<and>
      (2::int) < int (length (hd ?g)) \<and> int (length (?g ! nat 1)) \<le> 2 \<longrightarrow>
      hasCollision lvl (IFin 2) (IFin 1)"
    by blast
  then have "hasCollision lvl (IFin 2) (IFin 1)" by simp
  with L have "\<exists>lvl. Level_new ?cv ?g = Inr lvl \<and> mapHeight lvl = 3 \<and> mapWidth lvl = 3 \<and>
      hasCollision lvl (IFin 2) (IFin 1)"
    by auto
  moreover have "Level_new ?cv [] = Inl TypeError"
    using Level_new_no_validation [of "[]" ?cv] by simp
  ultimately show ?thesis using ne by blast
qed

section \<open>Lighting\<close>

text \<open>
  C7. For every distance \<open>d \<ge> 0\<close> (\<open>Infinity\<close> included), every ambient level, sharpness
  and radius, the computation in \<open>renderWallStrip\<close> and the computation in \<open>Sprite.draw\<close>
  return the same value, the one pair of radius \<open>0\<close> with distance \<open>0\<close> apart. That pair
  is no input of the code: the radius is the constant \<open>PLAYER_LIGHT_RADIUS = 150\<close>, and
  \<open>Sprite.draw\<close> returns before its lighting code unless the corrected distance of the
  sprite is above \<open>0.1\<close>.
\<close>

theorem wall_and_sprite_brightness_agree:
  assumes "js_ge d (Fin 0)" and "R \<noteq> 0 \<or> d \<noteq> Fin 0"
  shows "wallBrightness d R A k = spriteBrightness d R A k"
proof (cases d)
  case (Fin r)
  with assms have r: "0 \<le> r" by (simp add: js_ge_def)
  show ?thesis
  proof (cases "r = 0")
    case True
    with Fin assms(2) have "R \<noteq> 0" by simp
    then show ?thesis using Fin True
      by (auto simp: wallBrightness_def spriteBrightness_def js_gt_def js_sub_def Let_def)
  next
    case False
    with r have "0 < r" by simp
    then show ?thesis using Fin
      by (auto simp: wallBrightness_def spriteBrightness_def js_gt_def Let_def)
  qed
qed (use assms in \<open>simp_all add: wallBrightness_def spriteBrightness_def js_gt_def js_ge_def\<close>)

theorem wall_and_sprite_brightness_agree_witness:
  "js_ge (Fin 0) (Fin 0) \<and> PLAYER_LIGHT_RADIUS \<noteq> 0
   \<and> wallBrightness (Fin 0) PLAYER_LIGHT_RADIUS AMBIENT_LIGHT_LEVEL LIGHT_FALLOFF_SHARPNESS =
     spriteBrightness (Fin 0) PLAYER_LIGHT_RADIUS AMBIENT_LIGHT_LEVEL LIGHT_FALLOFF_SHARPNESS
   \<and> js_ge (Fin 75) (Fin 0) \<and> Fin 75 \<noteq> Fin 0
   \<and> wallBrightness (Fin 75) 0 AMBIENT_LIGHT_LEVEL LIGHT_FALLOFF_SHARPNESS =
     spriteBrightness (Fin 75) 0 AMBIENT_LIGHT_LEVEL LIGHT_FALLOFF_SHARPNESS"
proof -
  have a: "js_ge (Fin 0) (Fin 0)" by (simp add: js_ge_def)
  have b: "PLAYER_LIGHT_RADIUS \<noteq> 0 \<or> Fin 0 \<noteq> Fin 0" by (simp add: PLAYER_LIGHT_RADIUS_def)
  have c: "js_ge (Fin 75) (Fin 0)" by (simp add: js_ge_def)
  have d: "(0::real) \<noteq> 0 \<or> Fin 75 \<noteq> Fin 0" by simp
  have b': "PLAYER_LIGHT_RADIUS \<noteq> 0" by (simp add: PLAYER_LIGHT_RADIUS_def)
  from a b' c wall_and_sprite_brightness_agree [OF a b]
    wall_and_sprite_brightness_agree [OF c d]
  show ?thesis by simp
qed

lemma Math_pow_nonneg: "0 \<le> b \<Longrightarrow> 0 < k \<Longrightarrow> Math_pow (Fin b) k = Fin (b powr k)"
  by auto

lemma clamp_id:
  "A \<le> v \<Longrightarrow> v \<le> 1 \<Longrightarrow> Math_max (Fin A) (Math_min (Fin 1) (Fin v)) = Fin v"
  by simp

lemma falloff_bounds:
  assumes "0 \<le> A" "A \<le> 1" "0 < R" "0 < k" "0 \<le> d"
  shows "A \<le> falloff d R A k" and "falloff d R A k \<le> 1"
proof -
  show "A \<le> falloff d R A k" using assms by simp
  have p: "d \<le> R \<Longrightarrow> (1 - d / R) powr k \<le> 1" using assms
    by (intro powr_le1) (auto simp: field_simps)
  have "d \<le> R \<Longrightarrow> (1 - A) * (1 - d / R) powr k \<le> (1 - A) * 1"
    using p assms by (intro mult_left_mono) auto
  then show "falloff d R A k \<le> 1" using assms by auto
qed

lemma wallBrightness_falloff:
  assumes "0 \<le> A" "A \<le> 1" "0 < R" "0 < k" "0 \<le> d"
  shows "wallBrightness (Fin d) R A k = Fin (falloff d R A k)"
proof (cases "d \<le> R")
  case True
  have b: "0 \<le> 1 - d / R" using True assms by (simp add: field_simps)
  have pw: "Math_pow (Fin (1 - d / R)) k = Fin ((1 - d / R) powr k)"
    using b assms(4) by (rule Math_pow_nonneg)
  have "wallBrightness (Fin d) R A k =
      Math_max (Fin A) (Math_min (Fin 1) (Fin (A + (1 - A) * (1 - d / R) powr k)))"
    using True assms(3) by (simp add: wallBrightness_def js_sub_def Let_def pw del: Math_pow.simps)
  also have "\<dots> = Fin (A + (1 - A) * (1 - d / R) powr k)"
    using falloff_bounds [OF assms] True by (intro clamp_id) simp_all
  finally show ?thesis using True by simp
next
  case False
  then show ?thesis using assms
    by (simp add: wallBrightness_def)
qed

lemma falloff_antimono:
  assumes "0 \<le> A" "A \<le> 1" "0 < R" "0 < k" "0 \<le> d1" "d1 \<le> d2"
  shows "falloff d2 R A k \<le> falloff d1 R A k"
proof (cases "R < d2")
  case True
  have "A \<le> falloff d1 R A k" using assms by (intro falloff_bounds) auto
  then show ?thesis using True by simp
next
  case False
  then have le: "d2 \<le> R" "d1 \<le> R" using assms by auto
  have "1 - d2 / R \<le> 1 - d1 / R" using assms by (simp add: field_simps)
  moreover have "0 \<le> 1 - d2 / R" using le assms by (simp add: field_simps)
  ultimately have "(1 - d2 / R) powr k \<le> (1 - d1 / R) powr k"
    using assms(4) by (intro powr_mono2) auto
  then have "(1 - A) * (1 - d2 / R) powr k \<le> (1 - A) * (1 - d1 / R) powr k"
    using assms by (intro mult_left_mono) auto
  then show ?thesis using le by simp
qed

text \<open>
  C8. For \<open>0 \<le> ambient \<le> 1\<close>, \<open>radius > 0\<close> and \<open>sharpness > 0\<close>, the brightness of
  \<open>renderWallStrip\<close> is non-increasing in the distance over \<open>d \<ge> 0\<close>, lies between the
  ambient level and \<open>1\<close>, and is exactly \<open>1\<close> at distance \<open>0\<close>.
\<close>

theorem wallBrightness_monotone_bounded:
  assumes "0 \<le> A" and "A \<le> 1" and "0 < R" and "0 < k"
  shows "(\<forall>d1 d2. 0 \<le> d1 \<and> d1 \<le> d2 \<longrightarrow>
            js_le (wallBrightness (Fin d2) R A k) (wallBrightness (Fin d1) R A k))
       \<and> (\<forall>d. 0 \<le> d \<longrightarrow>
            js_le (Fin A) (wallBrightness (Fin d) R A k) \<and>
            js_le (wallBrightness (Fin d) R A k) (Fin 1))
       \<and> wallBrightness (Fin 0) R A k = Fin 1"
proof (intro conjI allI impI)
  fix d1 d2 :: real
  assume d: "0 \<le> d1 \<and> d1 \<le> d2"
  then have "0 \<le> d2" by simp
  with d assms show "js_le (wallBrightness (Fin d2) R A k) (wallBrightness (Fin d1) R A k)"
    using falloff_antimono [of A R k d1 d2]
    by (simp add: wallBrightness_falloff del: Math_pow.simps)
next
  fix d :: real
  assume "0 \<le> d"
  with assms show "js_le (Fin A) (wallBrightness (Fin d) R A k)"
    using falloff_bounds(1) [of A R k d] by (simp add: wallBrightness_falloff)
next
  fix d :: real
  assume "0 \<le> d"
  with assms show "js_le (wallBrightness (Fin d) R A k) (Fin 1)"
    using falloff_bounds(2) [of A R k d] by (simp add: wallBrightness_falloff)
next
  show "wallBrightness (Fin 0) R A k = Fin 1"
    using assms by (simp add: wallBrightness_falloff)
qed

theorem wallBrightness_monotone_bounded_witness:
  "(0::real) \<le> 1 / 100 \<and> (1::real) / 100 \<le> 1 \<and> (0::real) < 150 \<and> (0::real) < 9 / 10
   \<and> js_le (wallBrightness (Fin 120) 150 (1 / 100) (9 / 10))
            (wallBrightness (Fin 30) 150 (1 / 100) (9 / 10))
   \<and> js_le (Fin (1 / 100)) (wallBrightness (Fin 400) 150 (1 / 100) (9 / 10))
   \<and> js_le (wallBrightness (Fin 30) 150 (1 / 100) (9 / 10)) (Fin 1)
   \<and> wallBrightness (Fin 0) 150 (1 / 100) (9 / 10) = Fin 1"
proof -
  have h: "(0::real) \<le> 1 / 100" "(1::real) / 100 \<le> 1" "(0::real) < 150" "(0::real) < 9 / 10"
    by simp_all
  note t = wallBrightness_monotone_bounded [OF h]
  from t have "0 \<le> (30::real) \<and> (30::real) \<le> 120 \<longrightarrow>
      js_le (wallBrightness (Fin 120) 150 (1 / 100) (9 / 10))
            (wallBrightness (Fin 30) 150 (1 / 100) (9 / 10))"
    by blast
  moreover from t have "0 \<le> (400::real) \<longrightarrow>
      js_le (Fin (1 / 100)) (wallBrightness (Fin 400) 150 (1 / 100) (9 / 10))"
    by blast
  moreover from t have "0 \<le> (30::real) \<longrightarrow>
      js_le (wallBrightness (Fin 30) 150 (1 / 100) (9 / 10)) (Fin 1)"
    by blast
  moreover from t have "wallBrightness (Fin 0) 150 (1 / 100) (9 / 10) = Fin 1"
    by blast
  ultimately show ?thesis using h by simp
qed

section \<open>Termination of the grid marches\<close>

lemma floor_tile_forward: "\<lfloor>(r + tileSize) / tileSize\<rfloor> = \<lfloor>r / tileSize\<rfloor> + 1"
  by (simp add: tileSize_def add_divide_distrib)

lemma floor_tile_backward: "\<lfloor>(r - tileSize) / tileSize\<rfloor> = \<lfloor>r / tileSize\<rfloor> - 1"
  by (simp add: tileSize_def diff_divide_distrib)

lemma outsideGrid_IFin:
  "outsideGrid lvl (IFin cx) (IFin cy) =
     (cx < 0 \<or> int (mapWidth lvl) \<le> cx \<or> cy < 0 \<or> int (mapHeight lvl) \<le> cy)"
  by (auto simp: outsideGrid_def js_ge_def)

lemma outsideGrid_row_infinite [simp]:
  "outsideGrid lvl cx IPInf" "outsideGrid lvl cx INInf"
  by (simp_all add: outsideGrid_def js_ge_def)

lemma outsideGrid_column_infinite [simp]:
  "outsideGrid lvl IPInf cy" "outsideGrid lvl INInf cy"
  by (simp_all add: outsideGrid_def js_ge_def)

lemma hasCollision_NaN [simp]:
  "hasCollision lvl INaN cy" "hasCollision lvl cx INaN"
  by (cases cy; simp) (cases cx; simp)

lemma outsideGrid_row_bounds:
  "\<not> outsideGrid lvl cx (IFin cy) \<Longrightarrow> 0 \<le> cy \<and> cy < int (mapHeight lvl)"
  by (auto simp: outsideGrid_def js_ge_def)

lemma outsideGrid_column_bounds:
  "\<not> outsideGrid lvl (IFin cx) cy \<Longrightarrow> 0 \<le> cx \<and> cx < int (mapWidth lvl)"
  by (auto simp: outsideGrid_def js_ge_def)

lemma horizontalMarch_down_fuel:
  "int (mapHeight lvl) - \<lfloor>r / tileSize\<rfloor> < int fuel \<Longrightarrow> 0 < fuel \<Longrightarrow>
   horizontalMarch fuel lvl True sx (Fin tileSize) nx (Fin r) \<noteq> None"
proof (induction fuel arbitrary: nx r)
  case 0
  then show ?case by simp
next
  case (Suc n)
  let ?cx = "Math_floor (js_div nx (Fin tileSize))"
  let ?c = "\<lfloor>r / tileSize\<rfloor>"
  have ts: "tileSize \<noteq> 0" by (simp add: tileSize_def)
  show ?case
  proof (cases "outsideGrid lvl ?cx (IFin ?c) \<or> hasCollision lvl ?cx (IFin ?c)")
    case True
    then show ?thesis using ts by (auto simp: Let_def)
  next
    case False
    then have b: "0 \<le> ?c \<and> ?c < int (mapHeight lvl)"
      using outsideGrid_row_bounds by blast
    with Suc.prems have n: "0 < n" "int (mapHeight lvl) - \<lfloor>(r + tileSize) / tileSize\<rfloor> < int n"
      unfolding floor_tile_forward by linarith+
    have "horizontalMarch n lvl True sx (Fin tileSize) (js_add nx sx) (Fin (r + tileSize)) \<noteq> None"
      using Suc.IH [OF n(2) n(1)] .
    then show ?thesis using False ts by (simp add: Let_def)
  qed
qed

lemma horizontalMarch_up_fuel:
  "\<lfloor>r / tileSize\<rfloor> < int fuel \<Longrightarrow> 0 < fuel \<Longrightarrow>
   horizontalMarch fuel lvl False sx (Fin (- tileSize)) nx (Fin r) \<noteq> None"
proof (induction fuel arbitrary: nx r)
  case 0
  then show ?case by simp
next
  case (Suc n)
  let ?cx = "Math_floor (js_div nx (Fin tileSize))"
  let ?c = "\<lfloor>r / tileSize\<rfloor> - 1"
  have ts: "tileSize \<noteq> 0" by (simp add: tileSize_def)
  show ?case
  proof (cases "outsideGrid lvl ?cx (IFin ?c) \<or> hasCollision lvl ?cx (IFin ?c)")
    case True
    then show ?thesis using ts by (auto simp: Let_def)
  next
    case False
    then have b: "0 \<le> ?c \<and> ?c < int (mapHeight lvl)"
      using outsideGrid_row_bounds by blast
    with Suc.prems have n: "0 < n" "\<lfloor>(r - tileSize) / tileSize\<rfloor> < int n"
      unfolding floor_tile_backward by linarith+
    have "horizontalMarch n lvl False sx (Fin (- tileSize)) (js_add nx sx) (Fin (r - tileSize)) \<noteq> None"
      using Suc.IH [OF n(2) n(1)] .
    then show ?thesis using False ts by (simp add: Let_def)
  qed
qed

lemma horizontalMarch_terminates:
  assumes "mapHeight lvl < fuel"
    and "sy = (if down then Fin tileSize else Fin (- tileSize))"
  shows "horizontalMarch fuel lvl down sx sy nx ny \<noteq> None"
proof -
  from assms(1) obtain n where fuel: "fuel = Suc n" by (cases fuel) auto
  have ts: "tileSize \<noteq> 0" by (simp add: tileSize_def)
  let ?cx = "Math_floor (js_div nx (Fin tileSize))"
  show ?thesis
  proof (cases ny)
    case (Fin r)
    show ?thesis
    proof (cases down)
      case True
      show ?thesis
      proof (cases "outsideGrid lvl ?cx (IFin \<lfloor>r / tileSize\<rfloor>)")
        case out: True
        then show ?thesis using Fin True ts fuel by (simp add: Let_def)
      next
        case False
        then have "0 \<le> \<lfloor>r / tileSize\<rfloor>" using outsideGrid_row_bounds by blast
        with assms(1) have "int (mapHeight lvl) - \<lfloor>r / tileSize\<rfloor> < int fuel" "0 < fuel"
          by linarith+
        then show ?thesis using horizontalMarch_down_fuel Fin True assms(2) by simp
      qed
    next
      case False
      show ?thesis
      proof (cases "outsideGrid lvl ?cx (IFin (\<lfloor>r / tileSize\<rfloor> - 1))")
        case out: True
        then show ?thesis using Fin False ts fuel by (simp add: Let_def)
      next
        case inside: False
        then have "\<lfloor>r / tileSize\<rfloor> - 1 < int (mapHeight lvl)"
          using outsideGrid_row_bounds by blast
        with assms(1) have "\<lfloor>r / tileSize\<rfloor> < int fuel" "0 < fuel"
          by linarith+
        then show ?thesis using horizontalMarch_up_fuel Fin False assms(2) by simp
      qed
    qed
  next
    case PInf
    then show ?thesis using fuel by (simp add: Let_def)
  next
    case NInf
    then show ?thesis using fuel by (simp add: Let_def)
  next
    case NaN
    then show ?thesis using fuel by (simp add: Let_def)
  qed
qed

lemma verticalMarch_right_fuel:
  "int (mapWidth lvl) - \<lfloor>r / tileSize\<rfloor> < int fuel \<Longrightarrow> 0 < fuel \<Longrightarrow>
   verticalMarch fuel lvl False (Fin tileSize) sy (Fin r) ny \<noteq> None"
proof (induction fuel arbitrary: ny r)
  case 0
  then show ?case by simp
next
  case (Suc n)
  let ?cy = "Math_floor (js_div ny (Fin tileSize))"
  let ?c = "\<lfloor>r / tileSize\<rfloor>"
  have ts: "tileSize \<noteq> 0" by (simp add: tileSize_def)
  show ?case
  proof (cases "outsideGrid lvl (IFin ?c) ?cy \<or> hasCollision lvl (IFin ?c) ?cy")
    case True
    then show ?thesis using ts by (auto simp: Let_def)
  next
    case False
    then have b: "0 \<le> ?c \<and> ?c < int (mapWidth lvl)"
      using outsideGrid_column_bounds by blast
    with Suc.prems have n: "0 < n" "int (mapWidth lvl) - \<lfloor>(r + tileSize) / tileSize\<rfloor> < int n"
      unfolding floor_tile_forward by linarith+
    have "verticalMarch n lvl False (Fin tileSize) sy (Fin (r + tileSize)) (js_add ny sy) \<noteq> None"
      using Suc.IH [OF n(2) n(1)] .
    then show ?thesis using False ts by (simp add: Let_def)
  qed
qed

lemma verticalMarch_left_fuel:
  "\<lfloor>r / tileSize\<rfloor> < int fuel \<Longrightarrow> 0 < fuel \<Longrightarrow>
   verticalMarch fuel lvl True (Fin (- tileSize)) sy (Fin r) ny \<noteq> None"
proof (induction fuel arbitrary: ny r)
  case 0
  then show ?case by simp
next
  case (Suc n)
  let ?cy = "Math_floor (js_div ny (Fin tileSize))"
  let ?c = "\<lfloor>r / tileSize\<rfloor> - 1"
  have ts: "tileSize \<noteq> 0" by (simp add: tileSize_def)
  show ?case
  proof (cases "outsideGrid lvl (IFin ?c) ?cy \<or> hasCollision lvl (IFin ?c) ?cy")
    case True
    then show ?thesis using ts by (auto simp: Let_def)
  next
    case False
    then have b: "0 \<le> ?c \<and> ?c < int (mapWidth lvl)"
      using outsideGrid_column_bounds by blast
    with Suc.prems have n: "0 < n" "\<lfloor>(r - tileSize) / tileSize\<rfloor> < int n"
      unfolding floor_tile_backward by linarith+
    have "verticalMarch n lvl True (Fin (- tileSize)) sy (Fin (r - tileSize)) (js_add ny sy) \<noteq> None"
      using Suc.IH [OF n(2) n(1)] .
    then show ?thesis using False ts by (simp add: Let_def)
  qed
qed

lemma verticalMarch_terminates:
  assumes "mapWidth lvl < fuel"
    and "sx = (if left then Fin (- tileSize) else Fin tileSize)"
  shows "verticalMarch fuel lvl left sx sy nx ny \<noteq> None"
proof -
  from assms(1) obtain n where fuel: "fuel = Suc n" by (cases fuel) auto
  have ts: "tileSize \<noteq> 0" by (simp add: tileSize_def)
  let ?cy = "Math_floor (js_div ny (Fin tileSize))"
  show ?thesis
  proof (cases nx)
    case (Fin r)
    show ?thesis
    proof (cases left)
      case False
      show ?thesis
      proof (cases "outsideGrid lvl (IFin \<lfloor>r / tileSize\<rfloor>) ?cy")
        case out: True
        then show ?thesis using Fin False ts fuel by (simp add: Let_def)
      next
        case inside: False
        then have "0 \<le> \<lfloor>r / tileSize\<rfloor>" using outsideGrid_column_bounds by blast
        with assms(1) have "int (mapWidth lvl) - \<lfloor>r / tileSize\<rfloor> < int fuel" "0 < fuel"
          by linarith+
        then show ?thesis using verticalMarch_right_fuel Fin False assms(2) by simp
      qed
    next
      case True
      show ?thesis
      proof (cases "outsideGrid lvl (IFin (\<lfloor>r / tileSize\<rfloor> - 1)) ?cy")
        case out: True
        then show ?thesis using Fin True ts fuel by (simp add: Let_def)
      next
        case inside: False
        then have "\<lfloor>r / tileSize\<rfloor> - 1 < int (mapWidth lvl)"
          using outsideGrid_column_bounds by blast
        with assms(1) have "\<lfloor>r / tileSize\<rfloor> < int fuel" "0 < fuel"
          by linarith+
        then show ?thesis using verticalMarch_left_fuel Fin True assms(2) by simp
      qed
    qed
  next
    case PInf
    then show ?thesis using fuel by (simp add: Let_def)
  next
    case NInf
    then show ?thesis using fuel by (simp add: Let_def)
  next
    case NaN
    then show ?thesis using fuel by (simp add: Let_def)
  qed
qed

lemma horizontalIntersections_terminates:
  "mapHeight (gameLevel r) < fuel \<Longrightarrow> horizontalIntersections fuel r \<noteq> None"
  unfolding horizontalIntersections_def Let_def
  by (rule horizontalMarch_terminates) (simp_all add: tileSize_def)

lemma verticalIntersections_terminates:
  "mapWidth (gameLevel r) < fuel \<Longrightarrow> verticalIntersections fuel r \<noteq> None"
  unfolding verticalIntersections_def Let_def
  by (rule verticalMarch_terminates) (simp_all add: tileSize_def)

text \<open>A march that ends has left the grid or stands before a blocked cell.\<close>

lemma horizontalMarch_result:
  "horizontalMarch fuel lvl down sx sy nx ny = Some h \<Longrightarrow>
   h = (PInf, PInf) \<or>
   hasCollision lvl (Math_floor (js_div (fst h) (Fin tileSize)))
     (if down then Math_floor (js_div (snd h) (Fin tileSize))
      else js_dec (Math_floor (js_div (snd h) (Fin tileSize))))"
  by (induction fuel arbitrary: nx ny) (auto simp: Let_def split: if_splits)

lemma verticalMarch_result:
  "verticalMarch fuel lvl left sx sy nx ny = Some v \<Longrightarrow>
   v = (PInf, PInf) \<or>
   hasCollision lvl
     (if left then js_dec (Math_floor (js_div (fst v) (Fin tileSize)))
      else Math_floor (js_div (fst v) (Fin tileSize)))
     (Math_floor (js_div (snd v) (Fin tileSize)))"
  by (induction fuel arbitrary: nx ny) (auto simp: Let_def split: if_splits)

lemma cast_Some_iff:
  "(\<exists>res. cast fuel g r = Some res) \<longleftrightarrow>
     (horizontalIntersections fuel r \<noteq> None \<and> verticalIntersections fuel r \<noteq> None)"
  by (auto simp: cast_def Let_def split: option.splits)

text \<open>Fuel that is not needed changes nothing.\<close>

lemma horizontalMarch_more_fuel:
  "horizontalMarch n lvl down sx sy nx ny = Some h \<Longrightarrow>
   horizontalMarch (n + k) lvl down sx sy nx ny = Some h"
  by (induction n arbitrary: nx ny) (auto simp: Let_def split: if_splits)

lemma verticalMarch_more_fuel:
  "verticalMarch n lvl left sx sy nx ny = Some v \<Longrightarrow>
   verticalMarch (n + k) lvl left sx sy nx ny = Some v"
  by (induction n arbitrary: nx ny) (auto simp: Let_def split: if_splits)

lemma horizontalIntersections_more_fuel:
  "horizontalIntersections n r = Some h \<Longrightarrow> horizontalIntersections (n + k) r = Some h"
  unfolding horizontalIntersections_def Let_def by (rule horizontalMarch_more_fuel)

lemma verticalIntersections_more_fuel:
  "verticalIntersections n r = Some v \<Longrightarrow> verticalIntersections (n + k) r = Some v"
  unfolding verticalIntersections_def Let_def by (rule verticalMarch_more_fuel)

lemma horizontalIntersections_result:
  "horizontalIntersections n r = Some h \<Longrightarrow>
   h = (PInf, PInf) \<or>
   hasCollision (gameLevel r) (Math_floor (js_div (fst h) (Fin tileSize)))
     (if isFacingDown r then Math_floor (js_div (snd h) (Fin tileSize))
      else js_dec (Math_floor (js_div (snd h) (Fin tileSize))))"
  unfolding horizontalIntersections_def Let_def by (rule horizontalMarch_result)

lemma verticalIntersections_result:
  "verticalIntersections n r = Some v \<Longrightarrow>
   v = (PInf, PInf) \<or>
   hasCollision (gameLevel r)
     (if isFacingLeft r then js_dec (Math_floor (js_div (fst v) (Fin tileSize)))
      else Math_floor (js_div (fst v) (Fin tileSize)))
     (Math_floor (js_div (snd v) (Fin tileSize)))"
  unfolding verticalIntersections_def Let_def by (rule verticalMarch_result)

text \<open>
  C3. For every ray (every origin and every angle, the special values included) both march
  loops end: the horizontal march within \<open>mapHeight + 1\<close> executions of its body and the
  vertical march within \<open>mapWidth + 1\<close>, hence both within \<open>max(mapWidth, mapHeight) + 1\<close>.
  Each ends because it has left the grid (the hit is \<open>(Infinity, Infinity)\<close>) or because the
  cell it checks is blocked, more fuel does not change the outcome, and \<open>cast\<close> returns.
\<close>

theorem marches_terminate_within_bound:
  "\<exists>h v.
     (\<forall>k. horizontalIntersections (mapHeight (gameLevel r) + 1 + k) r = Some h)
   \<and> (\<forall>k. verticalIntersections (mapWidth (gameLevel r) + 1 + k) r = Some v)
   \<and> (\<forall>k. horizontalIntersections
             (max (mapWidth (gameLevel r)) (mapHeight (gameLevel r)) + 1 + k) r = Some h)
   \<and> (\<forall>k. verticalIntersections
             (max (mapWidth (gameLevel r)) (mapHeight (gameLevel r)) + 1 + k) r = Some v)
   \<and> (h = (PInf, PInf) \<or>
        hasCollision (gameLevel r) (Math_floor (js_div (fst h) (Fin tileSize)))
          (if isFacingDown r then Math_floor (js_div (snd h) (Fin tileSize))
           else js_dec (Math_floor (js_div (snd h) (Fin tileSize)))))
   \<and> (v = (PInf, PInf) \<or>
        hasCollision (gameLevel r)
          (if isFacingLeft r then js_dec (Math_floor (js_div (fst v) (Fin tileSize)))
           else Math_floor (js_div (fst v) (Fin tileSize)))
          (Math_floor (js_div (snd v) (Fin tileSize))))
   \<and> (\<forall>k g. \<exists>r' g'.
         cast (max (mapWidth (gameLevel r)) (mapHeight (gameLevel r)) + 1 + k) g r = Some (r', g'))"
proof -
  let ?H = "mapHeight (gameLevel r)" and ?W = "mapWidth (gameLevel r)"
  obtain h where h: "horizontalIntersections (?H + 1) r = Some h"
    using horizontalIntersections_terminates [of r "?H + 1"] by auto
  obtain v where v: "verticalIntersections (?W + 1) r = Some v"
    using verticalIntersections_terminates [of r "?W + 1"] by auto
  have hk: "horizontalIntersections (?H + 1 + k) r = Some h" for k
    using h by (rule horizontalIntersections_more_fuel)
  have vk: "verticalIntersections (?W + 1 + k) r = Some v" for k
    using v by (rule verticalIntersections_more_fuel)
  have hm: "horizontalIntersections (max ?W ?H + 1 + k) r = Some h" for k
  proof -
    have "max ?W ?H + 1 + k = ?H + 1 + (max ?W ?H - ?H + k)" by simp
    then show ?thesis using hk by metis
  qed
  have vm: "verticalIntersections (max ?W ?H + 1 + k) r = Some v" for k
  proof -
    have "max ?W ?H + 1 + k = ?W + 1 + (max ?W ?H - ?W + k)" by simp
    then show ?thesis using vk by metis
  qed
  have c: "\<exists>r' g'. cast (max ?W ?H + 1 + k) g r = Some (r', g')" for k g
    using cast_Some_iff [of "max ?W ?H + 1 + k" g r] hm [of k] vm [of k] by auto
  from hk vk hm vm c horizontalIntersections_result [OF h] verticalIntersections_result [OF v]
  show ?thesis by blast
qed

section \<open>Rays along an axis\<close>

lemma tileSize_pos: "0 < tileSize"
  by (simp add: tileSize_def)

lemma floor_tile_multiple [simp]: "\<lfloor>of_int c * tileSize / tileSize\<rfloor> = c"
  by (simp add: tileSize_def)


declare hasCollision.simps [simp del]


text \<open>The direction flags and the tangent at angle \<open>0\<close>.\<close>

lemma angle_east:
  assumes "absoluteAngle r = Fin 0"
  shows "\<not> isFacingDown r" "\<not> isFacingLeft r" "Math_tan (absoluteAngle r) = Fin 0"
  using assms by (simp_all add: isFacingDown_def isFacingLeft_def js_gt_def Math_PI_def mathPI_def)


text \<open>The other march is a march with finite start and finite steps.\<close>

lemma vertical_tan0_right:
  assumes "Math_tan (absoluteAngle r) = Fin 0" and "\<not> isFacingLeft r"
    and "ray_x r = Fin x" and "ray_y r = Fin y"
  shows "verticalIntersections fuel r =
         verticalMarch fuel (gameLevel r) False (Fin tileSize) (Fin 0)
           (Fin (of_int (\<lfloor>x / tileSize\<rfloor> + 1) * tileSize)) (Fin y)"
  using assms tileSize_pos by (simp add: verticalIntersections_def js_sub_def js_gt_def Let_def algebra_simps)



lemma distanceBetweenPoints_NaN:
  "distanceBetweenPoints x1 y1 NaN y2 = NaN"
  by (cases x1) (simp_all add: distanceBetweenPoints_def js_sub_def)


lemma getTileValue_infinite [simp]: "getTileValue lvl PInf PInf = Some 0"
  by (simp add: inBounds_def js_ge_def)

lemma cast_no_hit:
  assumes "horizontalIntersections fuel r = Some h" and "h = (PInf, PInf) \<or> fst h = NaN"
    and "verticalIntersections fuel r = Some (PInf, PInf)"
  shows "\<exists>r'. cast fuel g r =
             Some (r', g\<lparr> zBuffer := (zBuffer g)(screenColumn r \<mapsto> MAX_SAFE_INTEGER) \<rparr>) \<and>
           wallHitX r' = PInf \<and> wallHitY r' = PInf \<and> texturePixelX r' = NaN \<and>
           directDistance r' = MAX_SAFE_INTEGER \<and> correctedDistance r' = MAX_SAFE_INTEGER \<and>
           textureId r' = Some 0"
proof (cases h)
  case (Pair hx hy)
  from assms(2) Pair have "hx = PInf \<or> hx = NaN" by auto
  then show ?thesis
    using assms(1,3) Pair tileSize_pos
    by (auto simp: cast_def chooseHit_def Let_def distanceBetweenPoints_NaN
        simp del: getTileValue.simps)
qed








lemma Ray_new_east:
  "absoluteAngle (Ray_new lvl ox oy (Fin 0) (Fin 0) col) = Fin 0"
  by (simp add: Ray_new_def normalizeAngle_def Math_PI_def mathPI_def trunc_def Let_def)



subsection \<open>The angle \<open>Math.PI\<close>\<close>















section \<open>The sentinel and the depth buffer\<close>

lemma doorLevel_built:
  "Level_new gameCanvas [[1, 1, 1], [1, 0, 0], [1, 1, 1]] = Inr doorLevel"
  by (simp add: Level_new_def doorLevel_def gameCanvas_def tileSize_def)

lemma doorLevel_east_ray:
  "horizontalIntersections 4 (Ray_new doorLevel (Fin 75) (Fin 75) (Fin 0) (Fin 0) 250) =
     Some (PInf, PInf)"
  "verticalIntersections 4 (Ray_new doorLevel (Fin 75) (Fin 75) (Fin 0) (Fin 0) 250) =
     Some (PInf, PInf)"
proof -
  let ?r = "Ray_new doorLevel (Fin 75) (Fin 75) (Fin 0) (Fin 0) 250"
  have a: "absoluteAngle ?r = Fin 0" by (rule Ray_new_east)
  have o: "ray_x ?r = Fin 75" "ray_y ?r = Fin 75" "gameLevel ?r = doorLevel"
    by (simp_all add: Ray_new_def)
  show "horizontalIntersections 4 ?r = Some (PInf, PInf)"
    using angle_east [OF a] o
    by (simp add: horizontalIntersections_def tileSize_def js_sub_def js_gt_def Let_def
        numeral_nat)
  have "verticalIntersections 4 ?r =
      verticalMarch 4 doorLevel False (Fin tileSize) (Fin 0)
        (Fin (of_int (\<lfloor>75 / tileSize\<rfloor> + 1) * tileSize)) (Fin 75)"
    using vertical_tan0_right [OF angle_east(3) [OF a] angle_east(2) [OF a] o(1,2)] o(3)
    by simp
  also have "\<dots> = Some (PInf, PInf)"
    by (simp add: tileSize_def numeral_nat Let_def outsideGrid_IFin hasCollision.simps
        inBounds_IFin doorLevel_def cell_def)
  finally show "verticalIntersections 4 ?r = Some (PInf, PInf)" .
qed

lemma renderWallStrip_sentinel:
  "directDistance r = MAX_SAFE_INTEGER \<Longrightarrow> renderWallStrip r = []"
  by (simp add: renderWallStrip_def js_ge_def MAX_SAFE_INTEGER_def)

lemma cast_writes_directDistance:
  assumes "cast fuel g r = Some (r', g')"
  shows "g' = g\<lparr> zBuffer := (zBuffer g)(screenColumn r \<mapsto> directDistance r') \<rparr>"
    and "screenColumn r' = screenColumn r" and "gameLevel r' = gameLevel r"
  using assms
  by (auto simp: cast_def chooseHit_def Let_def split: option.splits if_splits
      simp del: getTileValue.simps js_mod.simps)

text \<open>
  C4. When both marches leave the grid, \<open>cast\<close> sets \<open>directDistance\<close> and
  \<open>correctedDistance\<close> to the finite sentinel \<open>9007199254740991\<close>, the texture id is \<open>0\<close>,
  \<open>renderWallStrip\<close> draws nothing and \<open>draw\<close> leaves the canvas as it was, and the sentinel is
  stored in the depth buffer at the column of the ray. Whenever \<open>cast\<close> returns, with or
  without a hit, the depth buffer holds at that column the \<open>directDistance\<close> of the ray.
\<close>

theorem cast_no_hit_sentinel:
  "(horizontalIntersections fuel r = Some (PInf, PInf) \<and>
    verticalIntersections fuel r = Some (PInf, PInf) \<longrightarrow>
      (\<exists>r'. cast fuel g r =
               Some (r', g\<lparr> zBuffer := (zBuffer g)(screenColumn r \<mapsto> Fin 9007199254740991) \<rparr>) \<and>
            directDistance r' = Fin 9007199254740991 \<and>
            correctedDistance r' = Fin 9007199254740991 \<and>
            textureId r' = Some 0 \<and>
            renderWallStrip r' = [] \<and>
            Ray_draw fuel g r =
               Some (r', g\<lparr> zBuffer := (zBuffer g)(screenColumn r \<mapsto> Fin 9007199254740991) \<rparr>)))
   \<and> (\<forall>r' g'. cast fuel g r = Some (r', g') \<longrightarrow>
         zBuffer g' (screenColumn r) = Some (directDistance r'))"
proof (intro conjI impI allI)
  assume "horizontalIntersections fuel r = Some (PInf, PInf) \<and>
    verticalIntersections fuel r = Some (PInf, PInf)"
  then obtain r' where c: "cast fuel g r =
        Some (r', g\<lparr> zBuffer := (zBuffer g)(screenColumn r \<mapsto> MAX_SAFE_INTEGER) \<rparr>)"
    and r': "wallHitX r' = PInf" "directDistance r' = MAX_SAFE_INTEGER"
      "correctedDistance r' = MAX_SAFE_INTEGER" "textureId r' = Some 0"
    using cast_no_hit [of fuel r "(PInf, PInf)" g] by auto
  have "Ray_draw fuel g r =
      Some (r', g\<lparr> zBuffer := (zBuffer g)(screenColumn r \<mapsto> MAX_SAFE_INTEGER) \<rparr>)"
    using c r' by (simp add: Ray_draw_def)
  with c r' renderWallStrip_sentinel [OF r'(2)]
  show "\<exists>r'. cast fuel g r =
               Some (r', g\<lparr> zBuffer := (zBuffer g)(screenColumn r \<mapsto> Fin 9007199254740991) \<rparr>) \<and>
            directDistance r' = Fin 9007199254740991 \<and>
            correctedDistance r' = Fin 9007199254740991 \<and>
            textureId r' = Some 0 \<and>
            renderWallStrip r' = [] \<and>
            Ray_draw fuel g r =
               Some (r', g\<lparr> zBuffer := (zBuffer g)(screenColumn r \<mapsto> Fin 9007199254740991) \<rparr>)"
    unfolding MAX_SAFE_INTEGER_def by blast
next
  fix r' g'
  assume "cast fuel g r = Some (r', g')"
  from cast_writes_directDistance(1) [OF this]
  show "zBuffer g' (screenColumn r) = Some (directDistance r')" by simp
qed

theorem cast_no_hit_sentinel_witness:
  "Level_new gameCanvas [[1, 1, 1], [1, 0, 0], [1, 1, 1]] = Inr doorLevel
   \<and> horizontalIntersections 4 (Ray_new doorLevel (Fin 75) (Fin 75) (Fin 0) (Fin 0) 250) =
     Some (PInf, PInf)
   \<and> verticalIntersections 4 (Ray_new doorLevel (Fin 75) (Fin 75) (Fin 0) (Fin 0) 250) =
     Some (PInf, PInf)
   \<and> (\<exists>r'. cast 4 frameStart (Ray_new doorLevel (Fin 75) (Fin 75) (Fin 0) (Fin 0) 250) =
               Some (r', frameStart\<lparr> zBuffer := freshZBuffer(250 \<mapsto> Fin 9007199254740991) \<rparr>) \<and>
            directDistance r' = Fin 9007199254740991 \<and>
            correctedDistance r' = Fin 9007199254740991 \<and>
            textureId r' = Some 0 \<and>
            renderWallStrip r' = [])"
proof -
  let ?r = "Ray_new doorLevel (Fin 75) (Fin 75) (Fin 0) (Fin 0) 250"
  have col: "screenColumn ?r = 250" by (simp add: Ray_new_def)
  have z: "zBuffer frameStart = freshZBuffer" by (simp add: frameStart_def)
  from cast_no_hit_sentinel [of 4 ?r frameStart] doorLevel_east_ray doorLevel_built
  show ?thesis unfolding col z by blast
qed

lemma Sprite_draw_zBuffer: "zBuffer (snd (Sprite_draw ar g s)) = zBuffer g"
  by (simp add: Sprite_draw_def Let_def split: prod.splits jsnum.splits option.splits)

text \<open>
  C9. A call of \<open>cast\<close> that returns changes the global state in one place only: the
  depth-buffer entry at the \<open>screenColumn\<close> of the ray, which receives \<open>directDistance\<close>;
  every other entry is as before, and the level of the ray is unchanged.
  \<open>Sprite.draw\<close> leaves the depth buffer as it was, whatever the arithmetic.
\<close>

theorem depth_buffer_frame:
  "(\<forall>r' g'. cast fuel g r = Some (r', g') \<longrightarrow>
       g' = g\<lparr> zBuffer := (zBuffer g)(screenColumn r \<mapsto> directDistance r') \<rparr> \<and>
       (\<forall>i. i \<noteq> screenColumn r \<longrightarrow> zBuffer g' i = zBuffer g i) \<and>
       zBuffer g' (screenColumn r) = Some (directDistance r') \<and>
       gameLevel r' = gameLevel r \<and> screenColumn r' = screenColumn r)
   \<and> zBuffer (snd (Sprite_draw ar g s)) = zBuffer g"
proof (intro conjI allI impI)
  fix r' g'
  assume c: "cast fuel g r = Some (r', g')"
  note f = cast_writes_directDistance [OF c]
  show "g' = g\<lparr> zBuffer := (zBuffer g)(screenColumn r \<mapsto> directDistance r') \<rparr>"
    by (rule f(1))
  show "zBuffer g' (screenColumn r) = Some (directDistance r')"
    using f(1) by simp
  show "gameLevel r' = gameLevel r" by (rule f(3))
  show "screenColumn r' = screenColumn r" by (rule f(2))
  fix i
  assume "i \<noteq> screenColumn r"
  then show "zBuffer g' i = zBuffer g i" using f(1) by simp
next
  show "zBuffer (snd (Sprite_draw ar g s)) = zBuffer g" by (rule Sprite_draw_zBuffer)
qed

theorem depth_buffer_frame_witness:
  "\<exists>r' g'. cast 4 frameStart (Ray_new doorLevel (Fin 75) (Fin 75) (Fin 0) (Fin 0) 250) =
       Some (r', g') \<and>
     g' = frameStart\<lparr> zBuffer := freshZBuffer(250 \<mapsto> directDistance r') \<rparr> \<and>
     zBuffer g' 249 = Some PInf \<and>
     zBuffer g' 250 = Some (directDistance r') \<and>
     gameLevel r' = doorLevel \<and>
     zBuffer (snd (Sprite_draw exactOps g' orbSprite)) = zBuffer g'"
proof -
  let ?r = "Ray_new doorLevel (Fin 75) (Fin 75) (Fin 0) (Fin 0) 250"
  obtain r' g' where c: "cast 4 frameStart ?r = Some (r', g')"
    using cast_no_hit [of 4 ?r "(PInf, PInf)" frameStart] doorLevel_east_ray by auto
  have col: "screenColumn ?r = 250" "gameLevel ?r = doorLevel" by (simp_all add: Ray_new_def)
  have z: "zBuffer frameStart = freshZBuffer" by (simp add: frameStart_def)
  have f: "freshZBuffer 249 = Some PInf" by (simp add: freshZBuffer_def canvasWidth_def)
  from depth_buffer_frame [where fuel = 4 and g = frameStart and r = ?r] c
  have "g' = frameStart\<lparr> zBuffer := (zBuffer frameStart)(screenColumn ?r \<mapsto> directDistance r') \<rparr>"
    and "\<forall>i. i \<noteq> screenColumn ?r \<longrightarrow> zBuffer g' i = zBuffer frameStart i"
    and "zBuffer g' (screenColumn ?r) = Some (directDistance r')"
    and "gameLevel r' = gameLevel ?r"
    by blast+
  moreover from depth_buffer_frame [where g = g' and s = orbSprite and ar = exactOps]
  have "zBuffer (snd (Sprite_draw exactOps g' orbSprite)) = zBuffer g'"
    by blast
  ultimately show ?thesis using c unfolding col z by (auto simp: f)
qed

section \<open>Degenerate angles\<close>














end
